theory Spec2Isabelle
  imports Main "HOL-Library.Sublist"
begin

section \<open>The PDP orchestration service (main.go)\<close>

text \<open>
  A shallow embedding of the retry and orchestration core of \<^verbatim>\<open>main.go\<close>: the
  handlers that drive the external \<^verbatim>\<open>pdptool\<close> binary (create-proof-set,
  get-proof-set-create-status, upload-file, add-roots), the text extraction they apply
  to its output, and the inserts into the metadata store.

  Strings are byte strings (\<^typ>\<open>string\<close>), as in Go. \<^verbatim>\<open>strings.ToLower\<close> is modelled
  as Go computes it: byte by byte on an ASCII string, and otherwise rune by rune over
  the UTF-8 decoding of the string, every rune encoded again, so that the result may
  differ from the argument in length. \<^verbatim>\<open>strings.TrimSpace\<close> is modelled on its ASCII
  path, which is the whole of it unless a byte above 0x7F stands at either end of what
  it trims.
\<close>

subsection \<open>The functions of package strings that the handlers call\<close>

definition newline :: char where
  "newline = CHR 0x0A"

text \<open>\<^verbatim>\<open>unicode.IsSpace\<close> on ASCII: tab, line feed, vertical tab, form feed, carriage
  return and space.\<close>

definition isSpace :: "char \<Rightarrow> bool" where
  "isSpace c = (c \<in> set [CHR 0x09, CHR 0x0A, CHR 0x0B, CHR 0x0C, CHR 0x0D, CHR 0x20])"

definition TrimSpace :: "string \<Rightarrow> string" where
  "TrimSpace s = rev (dropWhile isSpace (rev (dropWhile isSpace s)))"

definition toLower :: "char \<Rightarrow> char" where
  "toLower c =
     (case map_of (zip ''ABCDEFGHIJKLMNOPQRSTUVWXYZ'' ''abcdefghijklmnopqrstuvwxyz'') c of
        Some l \<Rightarrow> l
      | None \<Rightarrow> c)"

text \<open>A byte as a number and back (the bits of \<^typ>\<open>char\<close>, least significant first).\<close>

definition byteOf :: "char \<Rightarrow> nat" where
  "byteOf c =
     (if digit0 c then 1 else 0) + (if digit1 c then 2 else 0) +
     (if digit2 c then 4 else 0) + (if digit3 c then 8 else 0) +
     (if digit4 c then 16 else 0) + (if digit5 c then 32 else 0) +
     (if digit6 c then 64 else 0) + (if digit7 c then 128 else 0)"

definition charOf :: "nat \<Rightarrow> char" where
  "charOf n =
     Char (odd n) (odd (n div 2)) (odd (n div 4)) (odd (n div 8))
          (odd (n div 16)) (odd (n div 32)) (odd (n div 64)) (odd (n div 128))"

text \<open>\<^verbatim>\<open>utf8.DecodeRuneInString\<close>: the code point at the head of a byte string and its
  width. A byte that starts no well-formed encoding (a stray continuation byte, an
  overlong form, a surrogate, a value above U+10FFFF, a truncated sequence) decodes to
  \<^verbatim>\<open>utf8.RuneError\<close> with width 1.\<close>

definition RuneError :: nat where
  "RuneError = 0xFFFD"

definition isContinuation :: "nat \<Rightarrow> bool" where
  "isContinuation b = (0x80 \<le> b \<and> b \<le> 0xBF)"

definition decodeRune :: "nat list \<Rightarrow> nat \<times> nat" where
  "decodeRune bs =
     (case bs of
        [] \<Rightarrow> (RuneError, 0)
      | b0 # r0 \<Rightarrow>
          if b0 < 0x80 then (b0, 1)
          else if 0xC2 \<le> b0 \<and> b0 \<le> 0xDF then
            (case r0 of
               b1 # _ \<Rightarrow>
                 if isContinuation b1 then ((b0 mod 32) * 64 + b1 mod 64, 2)
                 else (RuneError, 1)
             | _ \<Rightarrow> (RuneError, 1))
          else if 0xE0 \<le> b0 \<and> b0 \<le> 0xEF then
            (case r0 of
               b1 # b2 # _ \<Rightarrow>
                 if (if b0 = 0xE0 then 0xA0 else 0x80) \<le> b1 \<and>
                    b1 \<le> (if b0 = 0xED then 0x9F else 0xBF) \<and> isContinuation b2
                 then ((b0 mod 16) * 4096 + (b1 mod 64) * 64 + b2 mod 64, 3)
                 else (RuneError, 1)
             | _ \<Rightarrow> (RuneError, 1))
          else if 0xF0 \<le> b0 \<and> b0 \<le> 0xF4 then
            (case r0 of
               b1 # b2 # b3 # _ \<Rightarrow>
                 if (if b0 = 0xF0 then 0x90 else 0x80) \<le> b1 \<and>
                    b1 \<le> (if b0 = 0xF4 then 0x8F else 0xBF) \<and>
                    isContinuation b2 \<and> isContinuation b3
                 then ((b0 mod 8) * 262144 + (b1 mod 64) * 4096 + (b2 mod 64) * 64 + b3 mod 64, 4)
                 else (RuneError, 1)
             | _ \<Rightarrow> (RuneError, 1))
          else (RuneError, 1))"

text \<open>\<^verbatim>\<open>for _, c := range s\<close>: the runes of a string, in order.\<close>

function decodeRunes :: "nat list \<Rightarrow> nat list" where
  "decodeRunes bs =
     (if bs = [] then []
      else fst (decodeRune bs) # decodeRunes (drop (snd (decodeRune bs)) bs))"
  by pat_completeness auto
termination
  by (relation "measure length") (auto simp: decodeRune_def split: list.splits if_splits)

declare decodeRunes.simps [simp del]

text \<open>\<^verbatim>\<open>utf8.AppendRune\<close>: a surrogate or a value above U+10FFFF is written as the
  encoding of \<^verbatim>\<open>utf8.RuneError\<close>.\<close>

definition encodeRune :: "nat \<Rightarrow> nat list" where
  "encodeRune r =
     (if r < 0x80 then [r]
      else if r < 0x800 then [0xC0 + r div 64, 0x80 + r mod 64]
      else if r > 0x10FFFF \<or> (0xD800 \<le> r \<and> r \<le> 0xDFFF) then [0xEF, 0xBF, 0xBD]
      else if r < 0x10000 then
        [0xE0 + r div 4096, 0x80 + (r div 64) mod 64, 0x80 + r mod 64]
      else
        [0xF0 + r div 262144, 0x80 + (r div 4096) mod 64, 0x80 + (r div 64) mod 64,
         0x80 + r mod 64])"

text \<open>\<^verbatim>\<open>unicode.ToLower\<close>: the ASCII letters by arithmetic; above U+007F the case
  tables of Go's library decide, which are no part of this program and come in as the
  parameter \<open>tbl\<close>.\<close>

definition unicodeLower :: "(nat \<Rightarrow> nat) \<Rightarrow> nat \<Rightarrow> nat" where
  "unicodeLower tbl r =
     (if r < 0x80 then (if 0x41 \<le> r \<and> r \<le> 0x5A then r + 0x20 else r) else tbl r)"

text \<open>\<^verbatim>\<open>strings.ToLower\<close>: a string of ASCII bytes only is lowered byte by byte;
  any other string goes through \<^verbatim>\<open>strings.Map(unicode.ToLower, s)\<close>, which decodes
  each rune, lowers it and encodes it again. The second path does not keep the
  length: an ill-formed byte becomes the three bytes of U+FFFD, and a rune may lower
  to one with a longer or a shorter encoding.\<close>

definition isASCII :: "string \<Rightarrow> bool" where
  "isASCII s = list_all (\<lambda>c. \<not> digit7 c) s"

definition ToLower :: "(nat \<Rightarrow> nat) \<Rightarrow> string \<Rightarrow> string" where
  "ToLower tbl s =
     (if isASCII s then map toLower s
      else map charOf (concat (map (\<lambda>r. encodeRune (unicodeLower tbl r))
                                   (decodeRunes (map byteOf s)))))"

definition HasPrefix :: "string \<Rightarrow> string \<Rightarrow> bool" where
  "HasPrefix s p = prefix p s"

definition HasSuffix :: "string \<Rightarrow> string \<Rightarrow> bool" where
  "HasSuffix s p = suffix p s"

definition Contains :: "string \<Rightarrow> string \<Rightarrow> bool" where
  "Contains s sub = sublist sub s"

text \<open>\<^verbatim>\<open>strings.Index\<close>: the position of the first occurrence, or \<open>-1\<close>.\<close>

fun Index :: "string \<Rightarrow> string \<Rightarrow> int" where
  "Index [] sub = (if sub = [] then 0 else - 1)"
| "Index (c # cs) sub =
     (if prefix sub (c # cs) then 0
      else (let i = Index cs sub in if i < 0 then - 1 else i + 1))"

text \<open>\<^verbatim>\<open>strings.Split\<close> with a separator of one byte: the pieces between the
  separators, always at least one piece (so the last case below never arises).\<close>

fun Split :: "string \<Rightarrow> char \<Rightarrow> string list" where
  "Split [] sep = [[]]"
| "Split (c # cs) sep =
     (if c = sep then [] # Split cs sep
      else (case Split cs sep of
              l # ls \<Rightarrow> (c # l) # ls
            | [] \<Rightarrow> [[c]]))"

text \<open>\<^verbatim>\<open>strings.SplitN(s, sep, 2)\<close> with a separator of one byte: the text before the
  first separator and the unsplit remainder, or the whole string when there is none.\<close>

definition SplitN2 :: "string \<Rightarrow> char \<Rightarrow> string list" where
  "SplitN2 s sep =
     (if sep \<in> set s
      then [takeWhile (\<lambda>c. c \<noteq> sep) s, tl (dropWhile (\<lambda>c. c \<noteq> sep) s)]
      else [s])"

subsection \<open>Extraction from the tool's output\<close>

text \<open>The content identifier, as \<^verbatim>\<open>uploadAndAddRootHandler\<close> (lines 848-849) and
  \<^verbatim>\<open>uploadFileToStorage\<close> (lines 1246-1247) take it: the last line of the trimmed
  output, trimmed. \<^verbatim>\<open>lines[len(lines)-1]\<close> is \<^term>\<open>last\<close>: \<^const>\<open>Split\<close> never
  returns the empty list.\<close>

definition parseRootCID_fullLine :: "string \<Rightarrow> string" where
  "parseRootCID_fullLine upOut =
     (let lines = Split (TrimSpace upOut) newline
      in TrimSpace (last lines))"

text \<open>The content identifier, as \<^verbatim>\<open>orchestrateHandler\<close> (lines 1441-1442) takes it:
  the last line of the trimmed output up to its first colon, not trimmed again.\<close>

definition parseRootCID_beforeColon :: "string \<Rightarrow> string" where
  "parseRootCID_beforeColon uOut =
     (let uLines = Split (TrimSpace uOut) newline
      in hd (SplitN2 (last uLines) CHR '':''))"

text \<open>The transaction handle (lines 1360-1372): the first line that, trimmed, starts with
  \<^verbatim>\<open>Location:\<close> and contains the path segment gives the handle, the trimmed text after
  the segment; the scan stops there. With no such line the handle stays empty.\<close>

definition createdSegment :: string where
  "createdSegment = ''/pdp/proof-sets/created/''"

fun scanLocation :: "string list \<Rightarrow> string" where
  "scanLocation [] = []"
| "scanLocation (l # ls) =
     (let line = TrimSpace l in
      if HasPrefix line ''Location:'' then
        (let idx = Index line createdSegment in
         if idx \<ge> 0
         then TrimSpace (drop (nat (idx + int (length createdSegment))) line)
         else scanLocation ls)
      else scanLocation ls)"


definition parseTxHash :: "string \<Rightarrow> string" where
  "parseTxHash out = scanLocation (Split out newline)"

text \<open>The status output (lines 1395-1411): without the marker in the lowered output
  the creation is still pending; with it the loop ends. The identifier marker is
  looked up in the lowered output, and the index found there is applied to the output
  itself (\<^verbatim>\<open>rest := sout[idStart:]\<close>): the identifier is what the output holds from
  that index up to the next line feed (or the end), trimmed, or the empty string when
  there is no identifier marker. When the index lies beyond the end of the output the
  slice expression panics (slice bounds out of range).\<close>

datatype poll_status = Pending | Created string | Panicked

definition parseProofSetID :: "(nat \<Rightarrow> nat) \<Rightarrow> string \<Rightarrow> poll_status" where
  "parseProofSetID tbl sout =
     (if Contains (ToLower tbl sout) ''proofset created: true'' then
        (let idx = Index (ToLower tbl sout) ''proofset id: '' in
         if idx \<ge> 0 then
           (let idStart = idx + int (length ''proofset id: '') in
            if idStart > int (length sout) then Panicked
            else
              (let rest = drop (nat idStart) sout;
                   idEnd = Index rest [newline]
               in if idEnd < 0 then Created (TrimSpace rest)
                  else Created (TrimSpace (take (nat idEnd) rest))))
         else Created [])
      else Pending)"

text \<open>\<^verbatim>\<open>strconv.Atoi\<close> on a 64-bit platform: an optional sign, then decimal digits only
  and at least one, with a value that fits \<^verbatim>\<open>int\<close>.\<close>

definition isDigit :: "char \<Rightarrow> bool" where
  "isDigit c = (c \<in> set ''0123456789'')"

definition digitVal :: "char \<Rightarrow> int" where
  "digitVal c =
     (case map_of (zip ''0123456789'' [0, 1, 2, 3, 4, 5, 6, 7, 8, 9]) c of
        Some d \<Rightarrow> d
      | None \<Rightarrow> 0)"

definition Atoi :: "string \<Rightarrow> int option" where
  "Atoi s =
     (let neg = (s \<noteq> [] \<and> hd s = CHR ''-'');
          ds = (if s \<noteq> [] \<and> (hd s = CHR ''-'' \<or> hd s = CHR ''+'') then tl s else s)
      in if ds = [] \<or> \<not> list_all isDigit ds then None
         else (let n = foldl (\<lambda>a c. a * 10 + digitVal c) 0 ds;
                   v = (if neg then - n else n)
               in if - (2 ^ 63) \<le> v \<and> v \<le> 2 ^ 63 - 1 then Some v else None))"

subsection \<open>The outside world: the tool, the clock, the metadata store\<close>

text \<open>One run of the tool gives its combined output and whether
  \<^verbatim>\<open>CombinedOutput\<close> returned an error.\<close>

datatype cmd_result = CmdResult (cmd_output: string) (cmd_failed: bool)

datatype jval =
    JNull
  | JStr string
  | JInt int
  | JBool bool
  | JArr "jval list"
  | JObj "(string \<times> jval) list"

text \<open>The effects a handler has on the world, in the order it has them: a run of the tool
  with its arguments, a \<^verbatim>\<open>time.Sleep\<close> of so many seconds, a statement sent to the
  store with its arguments.\<close>

datatype event =
    Exec "string list"
  | Sleep nat
  | DbExec string "jval list"

text \<open>The world answers the calls of a handler: \<open>pdptool w n\<close> is the result of the
  \<open>n\<close>-th run of the tool (from 0), \<open>dbfails w n\<close> says whether the \<open>n\<close>-th statement
  fails, \<open>createTemp\<close> and \<open>copyErr\<close> are the results of \<^verbatim>\<open>os.CreateTemp\<close> and
  \<^verbatim>\<open>io.Copy\<close> (a handler calls each at most once), \<open>jsonUnmarshal\<close> is
  \<^verbatim>\<open>json.Unmarshal\<close>, and \<open>unicodeToLower\<close> is \<^verbatim>\<open>unicode.ToLower\<close> on the code
  points above U+007F. \<open>runs\<close> and \<open>stmts\<close> count the runs and statements so far,
  and \<open>trace\<close> records the effects. What a handler prints to the log is left out.\<close>

record world =
  pdptool :: "nat \<Rightarrow> cmd_result"
  runs :: nat
  dbfails :: "nat \<Rightarrow> bool"
  stmts :: nat
  createTemp :: "string + string"
  copyErr :: "string option"
  jsonUnmarshal :: "string \<Rightarrow> jval option"
  unicodeToLower :: "nat \<Rightarrow> nat"
  trace :: "event list"

text \<open>\<^verbatim>\<open>newPDPCommand(args...).CombinedOutput()\<close>\<close>

definition CombinedOutput :: "string list \<Rightarrow> world \<Rightarrow> cmd_result \<times> world" where
  "CombinedOutput args w =
     (pdptool w (runs w), w\<lparr>runs := Suc (runs w), trace := trace w @ [Exec args]\<rparr>)"

text \<open>The world after one more run of the tool.\<close>

definition ran :: "string list \<Rightarrow> world \<Rightarrow> world" where
  "ran args w = w\<lparr>runs := Suc (runs w), trace := trace w @ [Exec args]\<rparr>"

text \<open>\<^verbatim>\<open>time.Sleep(n * time.Second)\<close>\<close>

definition SleepSeconds :: "nat \<Rightarrow> world \<Rightarrow> world" where
  "SleepSeconds n w = w\<lparr>trace := trace w @ [Sleep n]\<rparr>"

text \<open>\<^verbatim>\<open>db.Exec(context.Background(), sql, args...)\<close>; the result says whether it
  returned an error.\<close>

definition dbExec :: "string \<Rightarrow> jval list \<Rightarrow> world \<Rightarrow> bool \<times> world" where
  "dbExec sql args w =
     (dbfails w (stmts w), w\<lparr>stmts := Suc (stmts w), trace := trace w @ [DbExec sql args]\<rparr>)"

subsection \<open>Requests and responses\<close>

text \<open>What a handler reads from the request: whether \<^verbatim>\<open>ParseMultipartForm\<close> fails,
  the form values (\<^verbatim>\<open>PostForm\<close> gives the empty string for a missing key), the name of
  the uploaded file (\<open>None\<close> when \<^verbatim>\<open>FormFile\<close> fails), the path parameters, and the
  result of \<^verbatim>\<open>ShouldBindJSON\<close> (the error's text, or the bound fields).\<close>

record request =
  parseFormFails :: bool
  postForm :: "string \<Rightarrow> string"
  formFile :: "string option"
  param :: "string \<Rightarrow> string"
  shouldBindJSON :: "string + (string \<Rightarrow> string)"

text \<open>A response is the status code and the \<^verbatim>\<open>gin.H\<close> object sent with it.\<close>

type_synonym response = "nat \<times> (string \<times> jval) list"

definition StatusOK :: nat where
  "StatusOK = 200"

definition StatusBadRequest :: nat where
  "StatusBadRequest = 400"

definition StatusInternalServerError :: nat where
  "StatusInternalServerError = 500"

definition errorResponse :: "nat \<Rightarrow> string \<Rightarrow> response" where
  "errorResponse code msg = (code, [(''error'', JStr msg)])"

subsection \<open>Binding a root: the helper \<^verbatim>\<open>addRootToProofSet\<close> (lines 1259-1290)\<close>

definition maxRetries :: nat where
  "maxRetries = 3"

definition notFoundMarker :: string where
  "notFoundMarker = ''not found or does not belong to service''"

definition addRootsArgs :: "string \<Rightarrow> string \<Rightarrow> string \<Rightarrow> string \<Rightarrow> string list" where
  "addRootsArgs serviceUrl serviceName proofSetID rootCID =
     [''add-roots'', ''--service-url'', serviceUrl, ''--service-name'', serviceName,
      ''--proof-set-id'', proofSetID, ''--root'', rootCID]"

text \<open>\<^verbatim>\<open>%d\<close> of \<^verbatim>\<open>fmt\<close> for a number that is not negative.\<close>

fun Itoa :: "nat \<Rightarrow> string" where
  "Itoa n =
     (if n < 10 then [''0123456789'' ! n]
      else Itoa (n div 10) @ [''0123456789'' ! (n mod 10)])"

text \<open>The loop \<^verbatim>\<open>for attempt := 1; attempt <= maxRetries; attempt++\<close>, entered at
  \<open>attempt\<close>. The result is the error's text, or \<open>None\<close> for \<^verbatim>\<open>nil\<close>.\<close>

function addRootToProofSet_loop ::
  "nat \<Rightarrow> string \<Rightarrow> string \<Rightarrow> string \<Rightarrow> string \<Rightarrow> world \<Rightarrow> string option \<times> world" where
  "addRootToProofSet_loop attempt serviceUrl serviceName proofSetID rootCID w =
     (if attempt \<le> maxRetries then
        (let (ar, w1) = CombinedOutput (addRootsArgs serviceUrl serviceName proofSetID rootCID) w in
         if cmd_failed ar then
           (if Contains (cmd_output ar) notFoundMarker \<and> attempt < maxRetries
            then addRootToProofSet_loop (attempt + 1) serviceUrl serviceName proofSetID rootCID
                   (SleepSeconds (attempt * 2) w1)
            else (Some (''add-roots failed: '' @ cmd_output ar), w1))
         else (None, w1))
      else (Some (''add-roots failed after '' @ Itoa maxRetries @ '' attempts''), w))"
  by pat_completeness auto
termination
  by (relation "measure (\<lambda>(attempt, _). Suc maxRetries - attempt)") auto

declare addRootToProofSet_loop.simps [simp del]

definition addRootToProofSet ::
  "string \<Rightarrow> string \<Rightarrow> string \<Rightarrow> string \<Rightarrow> world \<Rightarrow> string option \<times> world" where
  "addRootToProofSet serviceUrl serviceName proofSetID rootCID w =
     addRootToProofSet_loop 1 serviceUrl serviceName proofSetID rootCID w"

subsection \<open>Binding a root: the loop inside \<^verbatim>\<open>uploadAndAddRootHandler\<close> (lines 860-915)\<close>

text \<open>The loop either answers the request itself (\<open>Responded\<close>) or ends with the last
  output and the flag \<^verbatim>\<open>addRootsSuccess\<close>. A failure that is neither retried after a
  sleep nor on the last attempt falls out of the \<^verbatim>\<open>if\<close> and the loop goes on with
  the next attempt.\<close>

datatype loop_exit =
    Responded "nat \<times> (string \<times> jval) list"
  | LoopEnd string bool

function addRootsInline ::
  "nat \<Rightarrow> string \<Rightarrow> string \<Rightarrow> string \<Rightarrow> string \<Rightarrow> string \<Rightarrow> bool \<Rightarrow> world \<Rightarrow> loop_exit \<times> world" where
  "addRootsInline attempt arOut serviceUrl serviceName proofSetID rootCID isEncrypted w =
     (if attempt \<le> maxRetries then
        (let (ar, w1) = CombinedOutput (addRootsArgs serviceUrl serviceName proofSetID rootCID) w in
         if cmd_failed ar then
           (if Contains (cmd_output ar) notFoundMarker \<and> attempt < maxRetries
            then addRootsInline (attempt + 1) (cmd_output ar) serviceUrl serviceName proofSetID
                   rootCID isEncrypted (SleepSeconds (attempt * 2) w1)
            else if attempt = maxRetries
            then (Responded (StatusInternalServerError,
                    [(''error'', JStr (cmd_output ar)),
                     (''details'', JObj [(''rootCID'', JStr rootCID),
                                        (''attempts'', JInt (int attempt)),
                                        (''isEncrypted'', JBool isEncrypted)])]), w1)
            else addRootsInline (attempt + 1) (cmd_output ar) serviceUrl serviceName proofSetID
                   rootCID isEncrypted w1)
         else (LoopEnd (cmd_output ar) True, w1))
      else (LoopEnd arOut False, w))"
  by pat_completeness auto
termination
  by (relation "measure (\<lambda>(attempt, _). Suc maxRetries - attempt)") auto

declare addRootsInline.simps [simp del]

subsection \<open>Waiting for the proof set: the loop of \<^verbatim>\<open>orchestrateHandler\<close> (lines 1381-1413)\<close>

text \<open>\<^verbatim>\<open>for { ... }\<close> has no bound: when no status output ever carries the marker
  the loop does not end, and the result is \<open>None\<close>. The error of the status run is
  dropped (\<^verbatim>\<open>statusOut, _ := ...\<close>), and the counter \<^verbatim>\<open>count\<close> is only printed. The loop
  ends with the identifier, or with the panic of the slice expression.\<close>

datatype panic = SliceBoundsOutOfRange

partial_function (option) pollCreated ::
  "string list \<Rightarrow> world \<Rightarrow> ((panic + string) \<times> world) option" where
  "pollCreated args w =
     (case CombinedOutput args w of (st, w1) \<Rightarrow>
        (case parseProofSetID (unicodeToLower w1) (cmd_output st) of
           Created proofSetID \<Rightarrow> Some (Inr proofSetID, w1)
         | Panicked \<Rightarrow> Some (Inl SliceBoundsOutOfRange, w1)
         | Pending \<Rightarrow> pollCreated args (SleepSeconds 3 w1)))"

declare pollCreated.simps [code]

subsection \<open>The upload step: \<^verbatim>\<open>uploadFileToStorage\<close> (lines 1218-1256)\<close>

definition uploadFileArgs :: "string \<Rightarrow> string \<Rightarrow> string \<Rightarrow> string list" where
  "uploadFileArgs serviceUrl serviceName tmpPath =
     [''upload-file'', ''--service-url'', serviceUrl, ''--service-name'', serviceName, tmpPath]"

text \<open>The result is \<open>Inl\<close> the error's text or \<open>Inr\<close> the content identifier.\<close>

definition uploadFileToStorage ::
  "string \<Rightarrow> string \<Rightarrow> string \<Rightarrow> world \<Rightarrow> (string + string) \<times> world" where
  "uploadFileToStorage filename serviceUrl serviceName w =
     (let isEncrypted = HasSuffix (ToLower (unicodeToLower w) filename) ''.enc'' in
      case createTemp w of
        Inl err \<Rightarrow> (Inl (''failed to create temp file: '' @ err), w)
      | Inr tmpPath \<Rightarrow>
          (case copyErr w of
             Some err \<Rightarrow> (Inl (''failed to copy file: '' @ err), w)
           | None \<Rightarrow>
               (let (up, w1) = CombinedOutput (uploadFileArgs serviceUrl serviceName tmpPath) w in
                if cmd_failed up then (Inl (''upload-file failed: '' @ cmd_output up), w1)
                else (let rootCID = parseRootCID_fullLine (cmd_output up);
                          w2 = (if isEncrypted then SleepSeconds 3 w1 else w1)
                      in (Inr rootCID, w2)))))"

subsection \<open>\<^verbatim>\<open>uploadAndAddRootHandler\<close> (lines 756-935)\<close>

definition insertFileCidsRoot :: string where
  "insertFileCidsRoot = ''INSERT INTO file_cids (filename,cid) VALUES ($1,$2)''"

definition insertFileCids :: string where
  "insertFileCids = ''INSERT INTO file_cids (filename, cid) VALUES ($1, $2)''"

definition uploadAndAddRootHandler :: "request \<Rightarrow> world \<Rightarrow> response \<times> world" where
  "uploadAndAddRootHandler req w =
     (let serviceUrl = postForm req ''serviceUrl'';
          serviceName = postForm req ''serviceName'';
          proofSetID = postForm req ''proofSetID''
      in if proofSetID = [] then (errorResponse StatusBadRequest ''proofSetID is required'', w)
      else
        (case formFile req of
           None \<Rightarrow> (errorResponse StatusBadRequest ''file is required'', w)
         | Some filename \<Rightarrow>
        (let isEncrypted = HasSuffix (ToLower (unicodeToLower w) filename) ''.enc'' in
         case createTemp w of
           Inl err \<Rightarrow> (errorResponse StatusInternalServerError err, w)
         | Inr tmpPath \<Rightarrow>
        (case copyErr w of
           Some err \<Rightarrow> (errorResponse StatusInternalServerError ''Failed to copy file'', w)
         | None \<Rightarrow>
        (let (up, w1) = CombinedOutput (uploadFileArgs serviceUrl serviceName tmpPath) w in
         if cmd_failed up then (errorResponse StatusInternalServerError (cmd_output up), w1)
         else
        (let rootCID = parseRootCID_fullLine (cmd_output up);
             w2 = (if isEncrypted then SleepSeconds 3 w1 else w1)
         in case addRootsInline 1 [] serviceUrl serviceName proofSetID rootCID isEncrypted w2 of
           (Responded r, w3) \<Rightarrow> (r, w3)
         | (LoopEnd arOut addRootsSuccess, w3) \<Rightarrow>
             if \<not> addRootsSuccess then
               ((StatusInternalServerError,
                 [(''error'', JStr arOut),
                  (''details'', JObj [(''rootCID'', JStr rootCID),
                                     (''maxRetries'', JInt (int maxRetries)),
                                     (''isEncrypted'', JBool isEncrypted)])]), w3)
             else
               (let (dbErr, w4) = dbExec insertFileCidsRoot [JStr filename, JStr rootCID] w3
                in ((StatusOK,
                     [(''proofSetID'', JStr proofSetID),
                      (''rootCID'', JStr rootCID),
                      (''addRoots'', JStr (TrimSpace arOut)),
                      (''isEncrypted'', JBool isEncrypted)]), w4))))))))"

subsection \<open>The typed upload handlers (lines 938-1215)\<close>

definition insertPaper :: string where
  "insertPaper = ''INSERT INTO paper (cid, title, journal, year, keywords) VALUES ($1, $2, $3, $4, $5)''"

definition insertGenome :: string where
  "insertGenome = ''INSERT INTO genome (cid, organism, assembly_version, notes) VALUES ($1, $2, $3, $4)''"

definition insertSpectrum :: string where
  "insertSpectrum = ''INSERT INTO spectrum (cid, compound, technique_nmr_ir_ms, metadata_json) VALUES ($1, $2, $3, $4)''"

definition uploadAndAddPaperHandler :: "request \<Rightarrow> world \<Rightarrow> response \<times> world" where
  "uploadAndAddPaperHandler req w =
     (if parseFormFails req then (errorResponse StatusBadRequest ''Failed to parse form'', w)
      else
     (let serviceUrl = postForm req ''serviceUrl'';
          serviceName = postForm req ''serviceName'';
          proofSetID = postForm req ''proofSetID'';
          title = postForm req ''title'';
          journal = postForm req ''journal'';
          yearStr = postForm req ''year'';
          keywordsStr = postForm req ''keywords''
      in if proofSetID = [] \<or> title = []
         then (errorResponse StatusBadRequest ''proofSetID and title are required'', w)
      else
     (let year = (if yearStr \<noteq> [] then (case Atoi yearStr of Some y \<Rightarrow> JInt y | None \<Rightarrow> JNull)
                  else JNull);
          keywords = (if keywordsStr \<noteq> []
                      then JArr (map (\<lambda>k. JStr (TrimSpace k)) (Split (TrimSpace keywordsStr) CHR '',''))
                      else JNull)
      in case formFile req of
           None \<Rightarrow> (errorResponse StatusBadRequest ''file is required'', w)
         | Some filename \<Rightarrow>
     (case uploadFileToStorage filename serviceUrl serviceName w of
        (Inl err, w1) \<Rightarrow> (errorResponse StatusInternalServerError err, w1)
      | (Inr rootCID, w1) \<Rightarrow>
     (case addRootToProofSet serviceUrl serviceName proofSetID rootCID w1 of
        (Some err, w2) \<Rightarrow> (errorResponse StatusInternalServerError err, w2)
      | (None, w2) \<Rightarrow>
     (let (dbErr, w3) = dbExec insertPaper [JStr rootCID, JStr title, JStr journal, year, keywords] w2
      in if dbErr
         then (errorResponse StatusInternalServerError ''Failed to save paper metadata'', w3)
      else
     (let (dbErr2, w4) = dbExec insertFileCids [JStr filename, JStr rootCID] w3
      in ((StatusOK,
           [(''proofSetID'', JStr proofSetID),
            (''rootCID'', JStr rootCID),
            (''title'', JStr title),
            (''journal'', JStr journal),
            (''year'', year),
            (''keywords'', keywords)]), w4))))))))"

definition uploadAndAddGenomeHandler :: "request \<Rightarrow> world \<Rightarrow> response \<times> world" where
  "uploadAndAddGenomeHandler req w =
     (if parseFormFails req then (errorResponse StatusBadRequest ''Failed to parse form'', w)
      else
     (let serviceUrl = postForm req ''serviceUrl'';
          serviceName = postForm req ''serviceName'';
          proofSetID = postForm req ''proofSetID'';
          organism = postForm req ''organism'';
          assemblyVersion = postForm req ''assemblyVersion'';
          notes = postForm req ''notes''
      in if proofSetID = [] \<or> organism = []
         then (errorResponse StatusBadRequest ''proofSetID and organism are required'', w)
      else
     (case formFile req of
        None \<Rightarrow> (errorResponse StatusBadRequest ''file is required'', w)
      | Some filename \<Rightarrow>
     (case uploadFileToStorage filename serviceUrl serviceName w of
        (Inl err, w1) \<Rightarrow> (errorResponse StatusInternalServerError err, w1)
      | (Inr rootCID, w1) \<Rightarrow>
     (case addRootToProofSet serviceUrl serviceName proofSetID rootCID w1 of
        (Some err, w2) \<Rightarrow> (errorResponse StatusInternalServerError err, w2)
      | (None, w2) \<Rightarrow>
     (let (dbErr, w3) = dbExec insertGenome
                          [JStr rootCID, JStr organism, JStr assemblyVersion, JStr notes] w2
      in if dbErr
         then (errorResponse StatusInternalServerError ''Failed to save genome metadata'', w3)
      else
     (let (dbErr2, w4) = dbExec insertFileCids [JStr filename, JStr rootCID] w3
      in ((StatusOK,
           [(''proofSetID'', JStr proofSetID),
            (''rootCID'', JStr rootCID),
            (''organism'', JStr organism),
            (''assemblyVersion'', JStr assemblyVersion),
            (''notes'', JStr notes)]), w4))))))))"

definition uploadAndAddSpectrumHandler :: "request \<Rightarrow> world \<Rightarrow> response \<times> world" where
  "uploadAndAddSpectrumHandler req w =
     (if parseFormFails req then (errorResponse StatusBadRequest ''Failed to parse form'', w)
      else
     (let serviceUrl = postForm req ''serviceUrl'';
          serviceName = postForm req ''serviceName'';
          proofSetID = postForm req ''proofSetID'';
          compound = postForm req ''compound'';
          technique = postForm req ''technique'';
          metadataJson = postForm req ''metadata''
      in if proofSetID = [] \<or> compound = []
         then (errorResponse StatusBadRequest ''proofSetID and compound are required'', w)
      else if metadataJson \<noteq> [] \<and> jsonUnmarshal w metadataJson = None
         then (errorResponse StatusBadRequest ''Invalid JSON metadata'', w)
      else
     (let metadataJsonb = (if metadataJson \<noteq> []
                           then (case jsonUnmarshal w metadataJson of Some v \<Rightarrow> v | None \<Rightarrow> JNull)
                           else JNull)
      in case formFile req of
           None \<Rightarrow> (errorResponse StatusBadRequest ''file is required'', w)
         | Some filename \<Rightarrow>
     (case uploadFileToStorage filename serviceUrl serviceName w of
        (Inl err, w1) \<Rightarrow> (errorResponse StatusInternalServerError err, w1)
      | (Inr rootCID, w1) \<Rightarrow>
     (case addRootToProofSet serviceUrl serviceName proofSetID rootCID w1 of
        (Some err, w2) \<Rightarrow> (errorResponse StatusInternalServerError err, w2)
      | (None, w2) \<Rightarrow>
     (let (dbErr, w3) = dbExec insertSpectrum
                          [JStr rootCID, JStr compound, JStr technique, JStr metadataJson] w2
      in if dbErr
         then (errorResponse StatusInternalServerError ''Failed to save spectrum metadata'', w3)
      else
     (let (dbErr2, w4) = dbExec insertFileCids [JStr filename, JStr rootCID] w3
      in ((StatusOK,
           [(''proofSetID'', JStr proofSetID),
            (''rootCID'', JStr rootCID),
            (''compound'', JStr compound),
            (''technique'', JStr technique),
            (''metadata'', metadataJsonb)]), w4))))))))"

subsection \<open>\<^verbatim>\<open>orchestrateHandler\<close> (lines 1333-1467)\<close>

definition createProofSetArgs :: "string \<Rightarrow> string \<Rightarrow> string \<Rightarrow> string list" where
  "createProofSetArgs serviceUrl serviceName recordKeeper =
     [''create-proof-set'', ''--service-url'', serviceUrl, ''--service-name'', serviceName,
      ''--recordkeeper'', recordKeeper]"

definition statusArgs :: "string \<Rightarrow> string \<Rightarrow> string \<Rightarrow> string list" where
  "statusArgs serviceUrl serviceName txHash =
     [''get-proof-set-create-status'', ''--service-url'', serviceUrl,
      ''--service-name'', serviceName, ''--tx-hash'', txHash]"

text \<open>What follows the polling loop (lines 1415-1466). The result of \<^verbatim>\<open>io.Copy\<close> is
  not looked at, and there is no settle delay and no retry on this path.\<close>

definition orchestrateUploadAndAdd ::
  "string \<Rightarrow> string \<Rightarrow> string \<Rightarrow> string \<Rightarrow> world \<Rightarrow> response \<times> world" where
  "orchestrateUploadAndAdd serviceUrl serviceName txHash proofSetID w =
     (case createTemp w of
        Inl err \<Rightarrow> (errorResponse StatusInternalServerError ''temp file error'', w)
      | Inr tmpPath \<Rightarrow>
     (let (u, w1) = CombinedOutput (uploadFileArgs serviceUrl serviceName tmpPath) w in
      if cmd_failed u then (errorResponse StatusInternalServerError ''upload-file failed'', w1)
      else
     (let rootCID = parseRootCID_beforeColon (cmd_output u);
          (ar, w2) = CombinedOutput (addRootsArgs serviceUrl serviceName proofSetID rootCID) w1
      in if cmd_failed ar then (errorResponse StatusInternalServerError ''add-roots failed'', w2)
         else ((StatusOK,
                [(''txHash'', JStr txHash),
                 (''proofSetID'', JStr proofSetID),
                 (''rootCID'', JStr rootCID),
                 (''addRoots'', JStr (TrimSpace (cmd_output ar)))]), w2))))"

text \<open>The handler returns \<open>None\<close> when the polling loop never ends. A panic of the
  handler is caught by \<^verbatim>\<open>gin.Recovery()\<close> (line 122), which answers with status 500
  and no body.\<close>

definition orchestrateHandler :: "request \<Rightarrow> world \<Rightarrow> (response \<times> world) option" where
  "orchestrateHandler req w =
     (let serviceUrl = postForm req ''serviceUrl'';
          serviceName = postForm req ''serviceName'';
          recordKeeper = postForm req ''recordkeeper''
      in case formFile req of
           None \<Rightarrow> Some (errorResponse StatusBadRequest ''file is required'', w)
         | Some filename \<Rightarrow>
     (let (out, w1) = CombinedOutput (createProofSetArgs serviceUrl serviceName recordKeeper) w in
      if cmd_failed out
      then Some (errorResponse StatusInternalServerError ''create-proof-set failed'', w1)
      else
     (let txHash = parseTxHash (cmd_output out) in
      if txHash = []
      then Some (errorResponse StatusInternalServerError ''txHash parse failed'', w1)
      else
     (case pollCreated (statusArgs serviceUrl serviceName txHash) w1 of
        None \<Rightarrow> None
      | Some (Inl SliceBoundsOutOfRange, w2) \<Rightarrow> Some ((StatusInternalServerError, []), w2)
      | Some (Inr proofSetID, w2) \<Rightarrow>
          Some (orchestrateUploadAndAdd serviceUrl serviceName txHash proofSetID w2)))))"

subsection \<open>The single-step handlers that run the same subcommands (lines 1492-1599)\<close>

definition createProofSetHandler :: "request \<Rightarrow> world \<Rightarrow> response \<times> world" where
  "createProofSetHandler req w =
     (case shouldBindJSON req of
        Inl err \<Rightarrow> (errorResponse StatusBadRequest err, w)
      | Inr field \<Rightarrow>
     (let (out, w1) = CombinedOutput
            (createProofSetArgs (field ''serviceUrl'') (field ''serviceName'') (field ''recordkeeper'')) w
      in if cmd_failed out then (errorResponse StatusInternalServerError (cmd_output out), w1)
         else ((StatusOK, [(''output'', JStr (cmd_output out))]), w1)))"

definition uploadFileHandler :: "request \<Rightarrow> world \<Rightarrow> response \<times> world" where
  "uploadFileHandler req w =
     (let serviceUrl = postForm req ''serviceUrl'';
          serviceName = postForm req ''serviceName''
      in case formFile req of
           None \<Rightarrow> (errorResponse StatusBadRequest ''file is required'', w)
         | Some filename \<Rightarrow>
     (case createTemp w of
        Inl err \<Rightarrow> (errorResponse StatusInternalServerError ''temp file error'', w)
      | Inr tmpPath \<Rightarrow>
     (let (out, w1) = CombinedOutput (uploadFileArgs serviceUrl serviceName tmpPath) w in
      if cmd_failed out then (errorResponse StatusInternalServerError ''upload-file failed'', w1)
      else ((StatusOK, [(''output'', JStr (cmd_output out))]), w1))))"

definition addRootsHandler :: "request \<Rightarrow> world \<Rightarrow> response \<times> world" where
  "addRootsHandler req w =
     (let proofSetId = param req ''proofSetId'' in
      case shouldBindJSON req of
        Inl err \<Rightarrow> (errorResponse StatusBadRequest err, w)
      | Inr field \<Rightarrow>
     (let (out, w1) = CombinedOutput
            (addRootsArgs (field ''serviceUrl'') (field ''serviceName'') proofSetId (field ''root'')) w
      in if cmd_failed out then (errorResponse StatusInternalServerError ''add-roots failed'', w1)
         else ((StatusOK, [(''message'', JStr (cmd_output out))]), w1)))"

subsection \<open>Scripted worlds and requests, for the examples\<close>

text \<open>The lower-case mapping on the code points that the examples use: U+023A
  (LATIN CAPITAL LETTER A WITH STROKE, two bytes in UTF-8) lowers to U+2C65 (three
  bytes), and U+FFFD is its own lower case.\<close>

definition lowerCaseFragment :: "nat \<Rightarrow> nat" where
  "lowerCaseFragment r = (if r = 0x23A then 0x2C65 else r)"

text \<open>A world that answers the runs of the tool from the list \<open>rs\<close> (and with a failure
  and no output once the list is used up), fails the statements marked in \<open>ds\<close>, and
  always provides a temporary file.\<close>

definition scriptedWorld :: "cmd_result list \<Rightarrow> bool list \<Rightarrow> world" where
  "scriptedWorld rs ds =
     \<lparr>pdptool = (\<lambda>n. if n < length rs then rs ! n else CmdResult [] True),
      runs = 0,
      dbfails = (\<lambda>n. n < length ds \<and> ds ! n),
      stmts = 0,
      createTemp = Inr ''/tmp/pdp-upload-1'',
      copyErr = None,
      jsonUnmarshal = (\<lambda>s. None),
      unicodeToLower = lowerCaseFragment,
      trace = []\<rparr>"

text \<open>A multipart request with the given form values and an uploaded file of the given
  name.\<close>

definition formRequest :: "(string \<times> string) list \<Rightarrow> string \<Rightarrow> request" where
  "formRequest form filename =
     \<lparr>parseFormFails = False,
      postForm = (\<lambda>k. case map_of form k of Some v \<Rightarrow> v | None \<Rightarrow> []),
      formFile = Some filename,
      param = (\<lambda>k. []),
      shouldBindJSON = Inl ''EOF''\<rparr>"

text \<open>Three failed runs, each with the marker in its output.\<close>

definition threeTransient :: world where
  "threeTransient = scriptedWorld
     [CmdResult ''first: proof set 7 not found or does not belong to service'' True,
      CmdResult ''second: proof set 7 not found or does not belong to service'' True,
      CmdResult ''third: proof set 7 not found or does not belong to service'' True] []"

text \<open>A request to bind an uploaded file to proof set 7, and a world where the upload
  succeeds, the first add-roots run fails without the marker and the second succeeds.\<close>

definition bindRequest :: request where
  "bindRequest = formRequest
     [(''serviceUrl'', ''https://pdp.example''), (''serviceName'', ''svc''), (''proofSetID'', ''7'')]
     ''data.bin''"

definition deniedThenOk :: world where
  "deniedThenOk = scriptedWorld
     [CmdResult ''baga6ea4'' False,
      CmdResult ''permission denied'' True,
      CmdResult ''roots added'' False] []"

text \<open>A request to create a proof set and bind an uploaded file to it.\<close>

definition createRequest :: request where
  "createRequest = formRequest
     [(''serviceUrl'', ''https://pdp.example''), (''serviceName'', ''svc''),
      (''recordkeeper'', ''0x6170dE'')]
     ''data.bin''"

text \<open>A world where the upload and the first add-roots run succeed, and a request that
  uploads a file marked as encrypted.\<close>

definition uploadThenBind :: world where
  "uploadThenBind = scriptedWorld
     [CmdResult ''baga6ea4'' False, CmdResult ''roots added'' False] []"

definition encRequest :: request where
  "encRequest = formRequest
     [(''serviceUrl'', ''https://pdp.example''), (''serviceName'', ''svc''), (''proofSetID'', ''7'')]
     ''reads.fastq.ENC''"

text \<open>A request that carries the fields of all three typed uploads, and two worlds where
  the upload and the binding succeed and the store fails its first statement, or its
  second.\<close>

definition typedRequest :: request where
  "typedRequest = formRequest
     [(''serviceUrl'', ''https://pdp.example''), (''serviceName'', ''svc''), (''proofSetID'', ''7''),
      (''title'', ''Proofs of data possession''), (''journal'', ''JoS''), (''year'', ''2023''),
      (''keywords'', ''pdp, storage''), (''organism'', ''E. coli''), (''compound'', ''caffeine''),
      (''technique'', ''NMR'')]
     ''data.bin''"

definition storeFailsFirst :: world where
  "storeFailsFirst = scriptedWorld
     [CmdResult ''baga6ea4'' False, CmdResult ''roots added'' False] [True]"

definition storeFailsSecond :: world where
  "storeFailsSecond = scriptedWorld
     [CmdResult ''baga6ea4'' False, CmdResult ''roots added'' False] [False, True]"

text \<open>A request with a JSON body, a world where the first run of the tool fails, and a
  world where the upload succeeds and three add-roots runs fail.\<close>

definition jsonRequest :: request where
  "jsonRequest =
     \<lparr>parseFormFails = False,
      postForm = (\<lambda>k. []),
      formFile = None,
      param = (\<lambda>k. if k = ''proofSetId'' then ''7'' else []),
      shouldBindJSON = Inr (\<lambda>k. case map_of
          [(''serviceUrl'', ''https://pdp.example''), (''serviceName'', ''svc''),
           (''recordkeeper'', ''0x6170dE''), (''root'', ''baga6ea4'')] k of
          Some v \<Rightarrow> v | None \<Rightarrow> [])\<rparr>"

definition firstRunFails :: world where
  "firstRunFails = scriptedWorld [CmdResult ''dial tcp: connection refused'' True] []"

definition bindFailsThrice :: world where
  "bindFailsThrice = scriptedWorld
     [CmdResult ''baga6ea4'' False, CmdResult ''denied 1'' True, CmdResult ''denied 2'' True,
      CmdResult ''denied 3'' True] []"

text \<open>The two bytes of U+023A in UTF-8.\<close>

definition strokedA :: string where
  "strokedA = [CHR 0xC8, CHR 0xBA]"

text \<open>Two status outputs without the marker, then one that reports the proof set 7
  after a capital A with stroke.\<close>

definition pendingTwice :: world where
  "pendingTwice = scriptedWorld
     [CmdResult ''pending'' False,
      CmdResult ''pending'' False,
      CmdResult (strokedA @ '' ProofSet Created: true'' @ [newline] @ ''ProofSet Id: 7'') False] []"

text \<open>A status run that fails with no output, one that fails with a message, and one
  that reports the proof set 7 (and fails as well).\<close>

definition statusFailsTwice :: world where
  "statusFailsTwice = scriptedWorld
     [CmdResult [] True,
      CmdResult ''dial tcp: connection refused'' True,
      CmdResult (''ProofSet Created: true'' @ [newline] @ ''ProofSet Id: 7'' @ [newline]) True] []"

text \<open>Every run of the tool fails with no output.\<close>

definition toolAlwaysFails :: world where
  "toolAlwaysFails = scriptedWorld [] []"

section \<open>Facts about the string functions\<close>

lemma Split_nonempty: "Split s sep \<noteq> []"
  by (induction s) (auto split: list.splits)

lemma Split_no_sep: "sep \<notin> set s \<Longrightarrow> Split s sep = [s]"
  by (induction s) auto

lemma last_Split_no_sep: "sep \<notin> set (last (Split s sep))"
proof (induction s)
  case Nil
  then show ?case by simp
next
  case (Cons c cs)
  obtain l ls where sp: "Split cs sep = l # ls"
    using Split_nonempty[of cs sep] by (cases "Split cs sep") auto
  show ?case
  proof (cases "c = sep")
    case True
    with Cons sp show ?thesis by simp
  next
    case False
    with Cons sp show ?thesis by (cases ls) auto
  qed
qed

lemma hd_SplitN2: "hd (SplitN2 s sep) = takeWhile (\<lambda>c. c \<noteq> sep) s"
proof (cases "sep \<in> set s")
  case True
  then show ?thesis by (simp add: SplitN2_def)
next
  case False
  then have tw: "takeWhile (\<lambda>c. c \<noteq> sep) s = s" by (auto simp: takeWhile_eq_all_conv)
  show ?thesis using False by (simp add: SplitN2_def tw)
qed

lemma dropWhile_rev_keeps_head:
  assumes "d \<noteq> []" "\<not> P (hd d)"
  shows "\<exists>zs. dropWhile P (rev d) = zs @ [hd d]"
proof -
  from assms obtain x d' where d: "d = x # d'" and x: "\<not> P x" by (cases d) auto
  show ?thesis using x by (auto simp: d dropWhile_append)
qed

lemma trim_head:
  "dropWhile P (rev (dropWhile P (rev (dropWhile P s)))) = rev (dropWhile P (rev (dropWhile P s)))"
proof (cases "dropWhile P s = []")
  case True
  show ?thesis unfolding True by simp
next
  case False
  then have "\<not> P (hd (dropWhile P s))" by (rule hd_dropWhile)
  with False obtain zs where "dropWhile P (rev (dropWhile P s)) = zs @ [hd (dropWhile P s)]"
    using dropWhile_rev_keeps_head by blast
  then show ?thesis using \<open>\<not> P (hd (dropWhile P s))\<close> by simp
qed

lemma TrimSpace_idem: "TrimSpace (TrimSpace s) = TrimSpace s"
  unfolding TrimSpace_def by (simp add: trim_head)

lemma set_TrimSpace: "set (TrimSpace s) \<subseteq> set s"
  unfolding TrimSpace_def
  by (metis (no_types, lifting) set_dropWhileD set_rev subsetI)

lemma Index_nonneg_iff: "0 \<le> Index s sub \<longleftrightarrow> sublist sub s"
  by (induction s) (auto simp: sublist_Cons_right Let_def)

lemma prefix_append_short:
  assumes "prefix xs (ys @ zs)" "length xs \<le> length ys"
  shows "prefix xs ys"
proof -
  from assms(1) have "xs = take (length xs) (ys @ zs)"
    by (metis append_eq_conv_conj prefix_def)
  with assms(2) have "xs = take (length xs) ys" by simp
  then show ?thesis by (metis take_is_prefix)
qed

text \<open>When no occurrence of \<open>m\<close> starts before position \<open>length a\<close>, the first one is
  the one at that position.\<close>

lemma Index_first:
  assumes "m \<noteq> []" "\<not> sublist m (a @ butlast m)"
  shows "Index (a @ m @ b) m = int (length a)"
  using assms
proof (induction a)
  case Nil
  then show ?case by (cases m) auto
next
  case (Cons x a)
  have np: "\<not> prefix m (x # a @ m @ b)"
  proof
    assume pre: "prefix m (x # a @ m @ b)"
    have eq: "x # a @ m @ b = ((x # a) @ butlast m) @ (last m # b)"
      using Cons.prems(1) by simp
    have len: "length m \<le> length ((x # a) @ butlast m)" by simp
    from pre have "prefix m (((x # a) @ butlast m) @ (last m # b))" by (simp only: eq)
    with len have "prefix m ((x # a) @ butlast m)"
      by (rule prefix_append_short[rotated -1])
    then have "sublist m ((x # a) @ butlast m)" by (rule prefix_imp_sublist)
    with Cons.prems(2) show False by simp
  qed
  have "\<not> sublist m (a @ butlast m)" using Cons.prems(2) by (simp add: sublist_Cons_right)
  with Cons have "Index (a @ m @ b) m = int (length a)" by simp
  with np show ?case by (simp add: Let_def)
qed

subsection \<open>The two extractions of the content identifier\<close>

lemma newline_notin_fullLine: "newline \<notin> set (parseRootCID_fullLine out)"
  using last_Split_no_sep[of newline "TrimSpace out"] set_TrimSpace
  by (auto simp: parseRootCID_fullLine_def)

lemma beforeColon_chars:
  "newline \<notin> set (parseRootCID_beforeColon out) \<and> CHR '':'' \<notin> set (parseRootCID_beforeColon out)"
proof -
  let ?l = "last (Split (TrimSpace out) newline)"
  have "newline \<notin> set ?l" by (rule last_Split_no_sep)
  moreover have "set (takeWhile (\<lambda>c. c \<noteq> CHR '':'') ?l) \<subseteq> set ?l"
    by (auto dest: set_takeWhileD)
  moreover have "CHR '':'' \<notin> set (takeWhile (\<lambda>c. c \<noteq> CHR '':'') ?l)"
    by (auto dest: set_takeWhileD)
  ultimately show ?thesis by (auto simp: parseRootCID_beforeColon_def hd_SplitN2)
qed

lemma beforeColon_plain:
  assumes "newline \<notin> set s" "CHR '':'' \<notin> set s"
  shows "parseRootCID_beforeColon s = TrimSpace s"
proof -
  have n: "newline \<notin> set (TrimSpace s)" and c: "CHR '':'' \<notin> set (TrimSpace s)"
    using assms set_TrimSpace by blast+
  have "Split (TrimSpace s) newline = [TrimSpace s]" using n by (rule Split_no_sep)
  then show ?thesis using c by (simp add: parseRootCID_beforeColon_def SplitN2_def)
qed

subsection \<open>The status output\<close>

text \<open>On an ASCII string the lowering is byte by byte, whatever the case tables.\<close>

lemma ToLower_ascii: "isASCII s \<Longrightarrow> ToLower tbl s = map toLower s"
  by (simp add: ToLower_def)

lemma isASCII_append [simp]: "isASCII (a @ b) = (isASCII a \<and> isASCII b)"
  by (simp add: isASCII_def)

lemma isASCII_butlast: "isASCII m \<Longrightarrow> isASCII (butlast m)"
  by (auto simp: isASCII_def list_all_iff dest: in_set_butlastD)

lemma Index_newline:
  assumes "newline \<notin> set v"
  shows "Index (v @ newline # t) [newline] = int (length v)"
proof -
  have "\<not> sublist [newline] (v @ butlast [newline])"
    using assms by (auto simp: sublist_def Cons_eq_append_conv append_eq_Cons_conv)
  then have "Index (v @ [newline] @ t) [newline] = int (length v)"
    by (intro Index_first) auto
  then show ?thesis by simp
qed

lemma Index_no_newline:
  assumes "newline \<notin> set v"
  shows "Index v [newline] < 0"
proof -
  have "\<not> sublist [newline] v"
    using assms by (auto simp: sublist_def)
  then show ?thesis using Index_nonneg_iff[of v "[newline]"] by simp
qed

text \<open>On an ASCII output the index found in the lowered copy is the index in the
  output, and the identifier is the text after the first identifier marker.\<close>

lemma parseProofSetID_ascii:
  assumes ascii: "isASCII s"
    and created: "Contains (ToLower tbl s) ''proofset created: true''"
    and s: "s = p @ m @ v @ t"
    and m: "ToLower tbl m = ''proofset id: ''"
    and first: "\<not> Contains (ToLower tbl (p @ butlast m)) ''proofset id: ''"
    and v: "newline \<notin> set v"
    and t: "t = [] \<or> hd t = newline"
  shows "parseProofSetID tbl s = Created (TrimSpace v)"
proof -
  have ap: "isASCII p" and am: "isASCII m" and avt: "isASCII (v @ t)"
    using ascii by (simp_all add: s)
  have m': "map toLower m = ''proofset id: ''"
    using m am by (simp add: ToLower_ascii)
  have low: "ToLower tbl s = map toLower p @ ''proofset id: '' @ map toLower (v @ t)"
    using ascii m' by (simp add: ToLower_ascii s)
  have "isASCII (p @ butlast m)" using ap am by (simp add: isASCII_butlast)
  then have "ToLower tbl (p @ butlast m) = map toLower p @ butlast ''proofset id: ''"
    using m' by (simp add: ToLower_ascii map_butlast)
  then have "\<not> sublist ''proofset id: '' (map toLower p @ butlast ''proofset id: '')"
    using first by (simp add: Contains_def)
  then have idx: "Index (ToLower tbl s) ''proofset id: '' = int (length p)"
    unfolding low
    using Index_first[of "''proofset id: ''" "map toLower p" "map toLower (v @ t)"]
    by simp
  have lm: "length m = 13" using arg_cong[OF m', of length] by simp
  have rest: "drop (nat (int (length p) + int (length ''proofset id: ''))) s = v @ t"
    by (simp add: s lm nat_add_distrib)
  have inside: "\<not> int (length p) + int (length ''proofset id: '') > int (length s)"
    by (simp add: s lm)
  show ?thesis
  proof (cases "t = []")
    case True
    with v have "Index (v @ t) [newline] < 0" by (simp add: Index_no_newline)
    then show ?thesis using created True inside
      unfolding parseProofSetID_def Let_def idx rest by simp
  next
    case False
    with t obtain t' where t': "t = newline # t'" by (cases t) auto
    have "Index (v @ t) [newline] = int (length v)" unfolding t' using v by (rule Index_newline)
    then show ?thesis using created inside
      unfolding parseProofSetID_def Let_def idx rest by simp
  qed
qed

lemma parseProofSetID_pending:
  "\<not> Contains (ToLower tbl s) ''proofset created: true'' \<Longrightarrow> parseProofSetID tbl s = Pending"
  by (simp add: parseProofSetID_def)

lemma parseProofSetID_pending_iff:
  "parseProofSetID tbl s = Pending \<longleftrightarrow> \<not> Contains (ToLower tbl s) ''proofset created: true''"
  by (simp add: parseProofSetID_def Let_def)

lemma created_marker_weaker:
  "Contains x ''proofset created: true'' \<Longrightarrow> Contains x ''created: true''"
proof -
  have "sublist ''created: true'' ''proofset created: true''"
    by (simp add: sublist_code)
  then show "Contains x ''proofset created: true'' \<Longrightarrow> Contains x ''created: true''"
    unfolding Contains_def by (rule sublist_order.order_trans)
qed

text \<open>An output without \<^verbatim>\<open>created: true\<close> in its lowered copy counts as pending.\<close>

lemma parseProofSetID_no_marker:
  assumes "\<not> Contains (ToLower tbl s) ''created: true''"
  shows "parseProofSetID tbl s = Pending"
proof -
  have "\<not> Contains (ToLower tbl s) ''proofset created: true''"
    using assms created_marker_weaker by blast
  then show ?thesis by (rule parseProofSetID_pending)
qed

section \<open>One turn of each loop\<close>

lemma ran_simps [simp]:
  "pdptool (ran args w) = pdptool w" "runs (ran args w) = Suc (runs w)"
  "trace (ran args w) = trace w @ [Exec args]" "dbfails (ran args w) = dbfails w"
  "stmts (ran args w) = stmts w" "createTemp (ran args w) = createTemp w"
  "copyErr (ran args w) = copyErr w" "jsonUnmarshal (ran args w) = jsonUnmarshal w"
  "unicodeToLower (ran args w) = unicodeToLower w"
  by (simp_all add: ran_def)

lemma Sleep_simps [simp]:
  "pdptool (SleepSeconds n w) = pdptool w" "runs (SleepSeconds n w) = runs w"
  "trace (SleepSeconds n w) = trace w @ [Sleep n]" "dbfails (SleepSeconds n w) = dbfails w"
  "stmts (SleepSeconds n w) = stmts w" "createTemp (SleepSeconds n w) = createTemp w"
  "copyErr (SleepSeconds n w) = copyErr w" "jsonUnmarshal (SleepSeconds n w) = jsonUnmarshal w"
  "unicodeToLower (SleepSeconds n w) = unicodeToLower w"
  by (simp_all add: SleepSeconds_def)

lemma CombinedOutput_eq: "CombinedOutput args w = (pdptool w (runs w), ran args w)"
  by (simp add: CombinedOutput_def ran_def)

lemma pollCreated_pending:
  assumes "parseProofSetID (unicodeToLower w) (cmd_output (pdptool w (runs w))) = Pending"
  shows "pollCreated args w = pollCreated args (SleepSeconds 3 (ran args w))"
  by (subst pollCreated.simps) (simp add: CombinedOutput_eq assms)

lemma pollCreated_created:
  assumes "parseProofSetID (unicodeToLower w) (cmd_output (pdptool w (runs w))) = Created pid"
  shows "pollCreated args w = Some (Inr pid, ran args w)"
  by (subst pollCreated.simps) (simp add: CombinedOutput_eq assms)

lemma pollCreated_panicked:
  assumes "parseProofSetID (unicodeToLower w) (cmd_output (pdptool w (runs w))) = Panicked"
  shows "pollCreated args w = Some (Inl SliceBoundsOutOfRange, ran args w)"
  by (subst pollCreated.simps) (simp add: CombinedOutput_eq assms)

text \<open>The loop goes on as long as the outputs lack the marker, and ends at the first
  output that has it, with what that output gives.\<close>

lemma pollCreated_skip:
  assumes "\<forall>i<k. \<not> Contains (ToLower (unicodeToLower w) (cmd_output (pdptool w (runs w + i))))
                         ''proofset created: true''"
  shows "pollCreated args w =
           pollCreated args (w\<lparr>runs := runs w + k,
                               trace := trace w @ concat (replicate k [Exec args, Sleep 3])\<rparr>)"
  using assms
proof (induction k arbitrary: w)
  case 0
  then show ?case by simp
next
  case (Suc k)
  let ?w1 = "SleepSeconds 3 (ran args w)"
  have "\<not> Contains (ToLower (unicodeToLower w) (cmd_output (pdptool w (runs w + 0))))
            ''proofset created: true''"
    using Suc.prems by blast
  then have "parseProofSetID (unicodeToLower w) (cmd_output (pdptool w (runs w))) = Pending"
    by (simp add: parseProofSetID_pending)
  then have "pollCreated args w = pollCreated args ?w1" by (rule pollCreated_pending)
  also have "\<dots> = pollCreated args (?w1\<lparr>runs := runs ?w1 + k,
                 trace := trace ?w1 @ concat (replicate k [Exec args, Sleep 3])\<rparr>)"
  proof (rule Suc.IH)
    show "\<forall>i<k. \<not> Contains (ToLower (unicodeToLower ?w1) (cmd_output (pdptool ?w1 (runs ?w1 + i))))
                         ''proofset created: true''"
      using Suc.prems by (auto simp: less_Suc_eq_0_disj)
  qed
  also have "?w1\<lparr>runs := runs ?w1 + k,
                 trace := trace ?w1 @ concat (replicate k [Exec args, Sleep 3])\<rparr> =
             w\<lparr>runs := runs w + Suc k,
               trace := trace w @ concat (replicate (Suc k) [Exec args, Sleep 3])\<rparr>"
    by (simp add: ran_def SleepSeconds_def)
  finally show ?case .
qed

lemma pollCreated_after:
  assumes pending: "\<forall>i<k. \<not> Contains (ToLower (unicodeToLower w) (cmd_output (pdptool w (runs w + i))))
                         ''proofset created: true''"
    and created: "parseProofSetID (unicodeToLower w) (cmd_output (pdptool w (runs w + k))) = Created pid"
  shows "pollCreated args w = Some (Inr pid, w\<lparr>runs := runs w + k + 1,
               trace := trace w @ concat (replicate k [Exec args, Sleep 3]) @ [Exec args]\<rparr>)"
proof -
  let ?wk = "w\<lparr>runs := runs w + k, trace := trace w @ concat (replicate k [Exec args, Sleep 3])\<rparr>"
  have "pollCreated args w = pollCreated args ?wk" using pending by (rule pollCreated_skip)
  also have "\<dots> = Some (Inr pid, ran args ?wk)"
    using created by (intro pollCreated_created) simp
  also have "ran args ?wk = w\<lparr>runs := runs w + k + 1,
               trace := trace w @ concat (replicate k [Exec args, Sleep 3]) @ [Exec args]\<rparr>" by (simp add: ran_def)
  finally show ?thesis .
qed

lemma pollCreated_after_panic:
  assumes pending: "\<forall>i<k. \<not> Contains (ToLower (unicodeToLower w) (cmd_output (pdptool w (runs w + i))))
                         ''proofset created: true''"
    and panicked: "parseProofSetID (unicodeToLower w) (cmd_output (pdptool w (runs w + k))) = Panicked"
  shows "pollCreated args w = Some (Inl SliceBoundsOutOfRange, w\<lparr>runs := runs w + k + 1,
               trace := trace w @ concat (replicate k [Exec args, Sleep 3]) @ [Exec args]\<rparr>)"
proof -
  let ?wk = "w\<lparr>runs := runs w + k, trace := trace w @ concat (replicate k [Exec args, Sleep 3])\<rparr>"
  have "pollCreated args w = pollCreated args ?wk" using pending by (rule pollCreated_skip)
  also have "\<dots> = Some (Inl SliceBoundsOutOfRange, ran args ?wk)"
    using panicked by (intro pollCreated_panicked) simp
  also have "ran args ?wk = w\<lparr>runs := runs w + k + 1,
               trace := trace w @ concat (replicate k [Exec args, Sleep 3]) @ [Exec args]\<rparr>" by (simp add: ran_def)
  finally show ?thesis .
qed

text \<open>With an ASCII output the loop ends with the identifier of the first identifier
  line: two outputs without the marker and a third that reads 7 make three runs and two
  sleeps, and the identifier is 7.\<close>

lemma pollCreated_ascii_third:
  assumes pending: "\<forall>i<2. \<not> Contains (ToLower (unicodeToLower w) (cmd_output (pdptool w (runs w + i))))
                         ''proofset created: true''"
    and o3: "cmd_output (pdptool w (runs w + 2)) = p @ m @ v @ t"
    and ascii: "isASCII (p @ m @ v @ t)"
    and c3: "Contains (ToLower (unicodeToLower w) (p @ m @ v @ t)) ''proofset created: true''"
    and m: "ToLower (unicodeToLower w) m = ''proofset id: ''"
    and first: "\<not> Contains (ToLower (unicodeToLower w) (p @ butlast m)) ''proofset id: ''"
    and v: "newline \<notin> set v" "TrimSpace v = ''7''"
    and t: "t = [] \<or> hd t = newline"
  shows "pollCreated args w =
           Some (Inr ''7'',
                 w\<lparr>runs := runs w + 3,
                   trace := trace w @ [Exec args, Sleep 3, Exec args, Sleep 3, Exec args]\<rparr>)"
proof -
  have "parseProofSetID (unicodeToLower w) (p @ m @ v @ t) = Created (TrimSpace v)"
    using ascii c3 _ m first v(1) t by (rule parseProofSetID_ascii) simp
  then have "parseProofSetID (unicodeToLower w) (cmd_output (pdptool w (runs w + 2))) = Created ''7''"
    using o3 v(2) by simp
  with pending have "pollCreated args w =
      Some (Inr ''7'',
            w\<lparr>runs := runs w + 2 + 1,
              trace := trace w @ concat (replicate 2 [Exec args, Sleep 3]) @ [Exec args]\<rparr>)"
    by (rule pollCreated_after)
  then show ?thesis by (simp add: numeral_2_eq_2)
qed

text \<open>When no output ever has the marker the loop does not return.\<close>

lemma pollCreated_returns:
  assumes "pollCreated args w = Some y"
  shows "\<exists>i. Contains (ToLower (unicodeToLower w) (cmd_output (pdptool w (runs w + i))))
               ''proofset created: true''"
proof (rule pollCreated.raw_induct
    [where P = "\<lambda>a w y. \<exists>i. Contains (ToLower (unicodeToLower w)
                                   (cmd_output (pdptool w (runs w + i)))) ''proofset created: true''",
     OF _ assms])
  fix f and a :: "string list" and w :: world and y :: "(panic + string) \<times> world"
  assume IH: "\<And>a w y. f a w = Some y \<Longrightarrow>
                \<exists>i. Contains (ToLower (unicodeToLower w) (cmd_output (pdptool w (runs w + i))))
                      ''proofset created: true''"
    and step: "(case CombinedOutput a w of
                  (st, w1) \<Rightarrow>
                    (case parseProofSetID (unicodeToLower w1) (cmd_output st) of
                       Pending \<Rightarrow> f a (SleepSeconds 3 w1)
                     | Created proofSetID \<Rightarrow> Some (Inr proofSetID, w1)
                     | Panicked \<Rightarrow> Some (Inl SliceBoundsOutOfRange, w1))) = Some y"
  show "\<exists>i. Contains (ToLower (unicodeToLower w) (cmd_output (pdptool w (runs w + i))))
             ''proofset created: true''"
  proof (cases "parseProofSetID (unicodeToLower w) (cmd_output (pdptool w (runs w))) = Pending")
    case True
    then have "f a (SleepSeconds 3 (ran a w)) = Some y"
      using step by (simp add: CombinedOutput_eq)
    from IH[OF this] obtain i where
      "Contains (ToLower (unicodeToLower w) (cmd_output (pdptool w (Suc (runs w) + i))))
         ''proofset created: true''"
      by auto
    then have "Contains (ToLower (unicodeToLower w) (cmd_output (pdptool w (runs w + Suc i))))
         ''proofset created: true''" by simp
    then show ?thesis by blast
  next
    case False
    then have "Contains (ToLower (unicodeToLower w) (cmd_output (pdptool w (runs w + 0))))
         ''proofset created: true''"
      by (simp add: parseProofSetID_pending_iff)
    then show ?thesis by blast
  qed
qed

lemma pollCreated_never:
  assumes "\<forall>i. \<not> Contains (ToLower (unicodeToLower w) (cmd_output (pdptool w (runs w + i))))
                     ''proofset created: true''"
  shows "pollCreated args w = None"
proof (cases "pollCreated args w")
  case None
  then show ?thesis .
next
  case (Some y)
  then show ?thesis using pollCreated_returns[OF Some] assms by blast
qed

lemma loop_success:
  assumes "attempt \<le> maxRetries" "\<not> cmd_failed (pdptool w (runs w))"
  shows "addRootToProofSet_loop attempt su sn pid cid w = (None, ran (addRootsArgs su sn pid cid) w)"
  using assms by (subst addRootToProofSet_loop.simps) (simp add: CombinedOutput_eq)

lemma loop_retry:
  assumes "attempt < maxRetries" "cmd_failed (pdptool w (runs w))"
    "Contains (cmd_output (pdptool w (runs w))) notFoundMarker"
    "attempt' = attempt + 1" "secs = attempt * 2"
  shows "addRootToProofSet_loop attempt su sn pid cid w =
         addRootToProofSet_loop attempt' su sn pid cid
           (SleepSeconds secs (ran (addRootsArgs su sn pid cid) w))"
  using assms by (subst addRootToProofSet_loop.simps) (simp add: CombinedOutput_eq)

lemma loop_terminal:
  assumes "attempt \<le> maxRetries" "cmd_failed (pdptool w (runs w))"
    "\<not> Contains (cmd_output (pdptool w (runs w))) notFoundMarker \<or> attempt = maxRetries"
    "err = ''add-roots failed: '' @ cmd_output (pdptool w (runs w))"
  shows "addRootToProofSet_loop attempt su sn pid cid w =
         (Some err, ran (addRootsArgs su sn pid cid) w)"
  using assms by (subst addRootToProofSet_loop.simps) (auto simp add: CombinedOutput_eq)

lemma inline_success:
  assumes "attempt \<le> maxRetries" "\<not> cmd_failed (pdptool w (runs w))"
    "out = cmd_output (pdptool w (runs w))"
  shows "addRootsInline attempt arOut su sn pid cid enc w =
         (LoopEnd out True, ran (addRootsArgs su sn pid cid) w)"
  using assms by (subst addRootsInline.simps) (simp add: CombinedOutput_eq)

lemma inline_retry:
  assumes "attempt < maxRetries" "cmd_failed (pdptool w (runs w))"
    "Contains (cmd_output (pdptool w (runs w))) notFoundMarker"
    "attempt' = attempt + 1" "secs = attempt * 2" "out = cmd_output (pdptool w (runs w))"
  shows "addRootsInline attempt arOut su sn pid cid enc w =
         addRootsInline attempt' out su sn pid cid enc
           (SleepSeconds secs (ran (addRootsArgs su sn pid cid) w))"
  using assms by (subst addRootsInline.simps) (simp add: CombinedOutput_eq)

lemma inline_last:
  assumes "attempt = maxRetries" "cmd_failed (pdptool w (runs w))"
    "out = cmd_output (pdptool w (runs w))"
  shows "addRootsInline attempt arOut su sn pid cid enc w =
         (Responded (StatusInternalServerError,
            [(''error'', JStr out),
             (''details'', JObj [(''rootCID'', JStr cid),
                                (''attempts'', JInt 3),
                                (''isEncrypted'', JBool enc)])]),
          ran (addRootsArgs su sn pid cid) w)"
  using assms by (subst addRootsInline.simps) (simp add: CombinedOutput_eq maxRetries_def)

text \<open>A failure without the marker on an attempt before the last neither returns nor
  sleeps: the loop goes straight on to the next attempt.\<close>

lemma inline_fallthrough:
  assumes "attempt < maxRetries" "cmd_failed (pdptool w (runs w))"
    "\<not> Contains (cmd_output (pdptool w (runs w))) notFoundMarker"
    "attempt' = attempt + 1" "out = cmd_output (pdptool w (runs w))"
  shows "addRootsInline attempt arOut su sn pid cid enc w =
         addRootsInline attempt' out su sn pid cid enc (ran (addRootsArgs su sn pid cid) w)"
  using assms by (subst addRootsInline.simps) (simp add: CombinedOutput_eq)

lemma after_runs:
  "SleepSeconds 4 (ran a (SleepSeconds 2 (ran a w))) =
     w\<lparr>runs := runs w + 2, trace := trace w @ [Exec a, Sleep 2, Exec a, Sleep 4]\<rparr>"
  "ran a (SleepSeconds 4 (ran a (SleepSeconds 2 (ran a w)))) =
     w\<lparr>runs := runs w + 3, trace := trace w @ [Exec a, Sleep 2, Exec a, Sleep 4, Exec a]\<rparr>"
  "ran a (SleepSeconds 2 (ran a w)) =
     w\<lparr>runs := runs w + 2, trace := trace w @ [Exec a, Sleep 2, Exec a]\<rparr>"
  "ran a w = w\<lparr>runs := runs w + 1, trace := trace w @ [Exec a]\<rparr>"
  by (simp_all add: ran_def SleepSeconds_def)

section \<open>The two retry loops when every failure carries the marker\<close>

lemma addRootToProofSet_transient:
  fixes w :: world
  assumes tr: "\<forall>k<3. cmd_failed (pdptool w (runs w + k)) \<longrightarrow>
                 Contains (cmd_output (pdptool w (runs w + k))) notFoundMarker"
    and a: "a = addRootsArgs su sn pid cid"
    and f: "f = (\<lambda>k. cmd_failed (pdptool w (runs w + k)))"
    and out: "out = (\<lambda>k. cmd_output (pdptool w (runs w + k)))"
  shows "addRootToProofSet su sn pid cid w =
           (if \<not> f 0 then (None, w\<lparr>runs := runs w + 1, trace := trace w @ [Exec a]\<rparr>)
            else if \<not> f 1 then
              (None, w\<lparr>runs := runs w + 2, trace := trace w @ [Exec a, Sleep 2, Exec a]\<rparr>)
            else
              (if f 2 then Some (''add-roots failed: '' @ out 2) else None,
               w\<lparr>runs := runs w + 3,
                 trace := trace w @ [Exec a, Sleep 2, Exec a, Sleep 4, Exec a]\<rparr>))"
proof -
  let ?w1 = "SleepSeconds 2 (ran a w)"
  let ?w2 = "SleepSeconds 4 (ran a ?w1)"
  let ?L = "\<lambda>n. addRootToProofSet_loop n su sn pid cid"
  have c0: "f 0 \<Longrightarrow> Contains (out 0) notFoundMarker"
    and c1: "f 1 \<Longrightarrow> Contains (out 1) notFoundMarker"
    using tr[rule_format, of 0] tr[rule_format, of 1] by (simp_all add: f out)
  have ok0: "?L 1 w = (None, ran a w)" if "\<not> f 0"
    unfolding a by (rule loop_success) (use that in \<open>simp_all add: f maxRetries_def\<close>)
  have s1: "?L 1 w = ?L 2 ?w1" if "f 0"
    unfolding a by (rule loop_retry) (use that c0 in \<open>simp_all add: f out maxRetries_def\<close>)
  have ok1: "?L 2 ?w1 = (None, ran a ?w1)" if "\<not> f 1"
    unfolding a by (rule loop_success) (use that in \<open>simp_all add: f maxRetries_def\<close>)
  have s2: "?L 2 ?w1 = ?L 3 ?w2" if "f 1"
    unfolding a by (rule loop_retry) (use that c1 in \<open>simp_all add: f out maxRetries_def\<close>)
  have ok2: "?L 3 ?w2 = (None, ran a ?w2)" if "\<not> f 2"
    unfolding a by (rule loop_success) (use that in \<open>simp_all add: f maxRetries_def\<close>)
  have bad2: "?L 3 ?w2 = (Some (''add-roots failed: '' @ out 2), ran a ?w2)" if "f 2"
    unfolding a by (rule loop_terminal) (use that in \<open>simp_all add: f out maxRetries_def\<close>)
  consider "\<not> f 0" | "f 0" "\<not> f 1" | "f 0" "f 1" "\<not> f 2" | "f 0" "f 1" "f 2" by blast
  then show ?thesis
  proof cases
    case 1
    with ok0 show ?thesis unfolding addRootToProofSet_def by (simp add: after_runs)
  next
    case 2
    with s1 ok1 show ?thesis unfolding addRootToProofSet_def by (simp add: after_runs)
  next
    case 3
    with s1 s2 ok2 show ?thesis unfolding addRootToProofSet_def by (simp add: after_runs)
  next
    case 4
    with s1 s2 bad2 show ?thesis unfolding addRootToProofSet_def by (simp add: after_runs)
  qed
qed

lemma addRootsInline_transient:
  fixes w :: world
  assumes tr: "\<forall>k<3. cmd_failed (pdptool w (runs w + k)) \<longrightarrow>
                 Contains (cmd_output (pdptool w (runs w + k))) notFoundMarker"
    and a: "a = addRootsArgs su sn pid cid"
    and f: "f = (\<lambda>k. cmd_failed (pdptool w (runs w + k)))"
    and out: "out = (\<lambda>k. cmd_output (pdptool w (runs w + k)))"
  shows "addRootsInline 1 [] su sn pid cid enc w =
           (if \<not> f 0 then
              (LoopEnd (out 0) True, w\<lparr>runs := runs w + 1, trace := trace w @ [Exec a]\<rparr>)
            else if \<not> f 1 then
              (LoopEnd (out 1) True,
               w\<lparr>runs := runs w + 2, trace := trace w @ [Exec a, Sleep 2, Exec a]\<rparr>)
            else
              (if f 2 then
                 Responded (StatusInternalServerError,
                   [(''error'', JStr (out 2)),
                    (''details'', JObj [(''rootCID'', JStr cid), (''attempts'', JInt 3),
                                       (''isEncrypted'', JBool enc)])])
               else LoopEnd (out 2) True,
               w\<lparr>runs := runs w + 3,
                 trace := trace w @ [Exec a, Sleep 2, Exec a, Sleep 4, Exec a]\<rparr>))"
proof -
  let ?w1 = "SleepSeconds 2 (ran a w)"
  let ?w2 = "SleepSeconds 4 (ran a ?w1)"
  let ?L = "\<lambda>n arOut. addRootsInline n arOut su sn pid cid enc"
  have c0: "f 0 \<Longrightarrow> Contains (out 0) notFoundMarker"
    and c1: "f 1 \<Longrightarrow> Contains (out 1) notFoundMarker"
    using tr[rule_format, of 0] tr[rule_format, of 1] by (simp_all add: f out)
  have ok0: "?L 1 [] w = (LoopEnd (out 0) True, ran a w)" if "\<not> f 0"
    unfolding a by (rule inline_success) (use that in \<open>simp_all add: f out maxRetries_def\<close>)
  have s1: "?L 1 [] w = ?L 2 (out 0) ?w1" if "f 0"
    unfolding a by (rule inline_retry) (use that c0 in \<open>simp_all add: f out maxRetries_def\<close>)
  have ok1: "?L 2 (out 0) ?w1 = (LoopEnd (out 1) True, ran a ?w1)" if "\<not> f 1"
    unfolding a by (rule inline_success) (use that in \<open>simp_all add: f out maxRetries_def\<close>)
  have s2: "?L 2 (out 0) ?w1 = ?L 3 (out 1) ?w2" if "f 1"
    unfolding a by (rule inline_retry) (use that c1 in \<open>simp_all add: f out maxRetries_def\<close>)
  have ok2: "?L 3 (out 1) ?w2 = (LoopEnd (out 2) True, ran a ?w2)" if "\<not> f 2"
    unfolding a by (rule inline_success) (use that in \<open>simp_all add: f out maxRetries_def\<close>)
  have bad2: "?L 3 (out 1) ?w2 =
      (Responded (StatusInternalServerError,
         [(''error'', JStr (out 2)),
          (''details'', JObj [(''rootCID'', JStr cid), (''attempts'', JInt 3),
                             (''isEncrypted'', JBool enc)])]), ran a ?w2)" if "f 2"
    unfolding a by (rule inline_last) (use that in \<open>simp_all add: f out maxRetries_def\<close>)
  consider "\<not> f 0" | "f 0" "\<not> f 1" | "f 0" "f 1" "\<not> f 2" | "f 0" "f 1" "f 2" by blast
  then show ?thesis
  proof cases
    case 1
    with ok0 show ?thesis by (simp add: after_runs)
  next
    case 2
    with s1 ok1 show ?thesis by (simp add: after_runs)
  next
    case 3
    with s1 s2 ok2 show ?thesis by (simp add: after_runs)
  next
    case 4
    with s1 s2 bad2 show ?thesis by (simp add: after_runs)
  qed
qed

lemma all_less_2: "(\<forall>k<2. P k) \<longleftrightarrow> P 0 \<and> P (Suc 0)"
proof -
  have "k < 2 \<longleftrightarrow> k = 0 \<or> k = Suc 0" for k :: nat by arith
  then show ?thesis by auto
qed

lemma all_less_3: "(\<forall>k<3. P k) \<longleftrightarrow> P 0 \<and> P (Suc 0) \<and> P (Suc (Suc 0))"
proof -
  have "k < 3 \<longleftrightarrow> k = 0 \<or> k = Suc 0 \<or> k = Suc (Suc 0)" for k :: nat by arith
  then show ?thesis by auto
qed

section \<open>The scan for the transaction handle\<close>





section \<open>What the loop inside the handler adds to the trace\<close>

lemma inline_trace_extends:
  "\<exists>ext. trace (snd (addRootsInline attempt arOut su sn pid cid enc w)) = trace w @ ext"
proof (induction attempt arOut su sn pid cid enc w rule: addRootsInline.induct)
  case (1 attempt arOut su sn pid cid enc w)
  let ?r = "pdptool w (runs w)"
  let ?w1 = "ran (addRootsArgs su sn pid cid) w"
  have co: "CombinedOutput (addRootsArgs su sn pid cid) w = (?r, ?w1)" by (rule CombinedOutput_eq)
  show ?case
  proof (cases "attempt \<le> maxRetries")
    case False
    then show ?thesis by (subst addRootsInline.simps) simp
  next
    case le: True
    show ?thesis
    proof (cases "cmd_failed ?r")
      case False
      then show ?thesis using le by (subst addRootsInline.simps) (simp add: co)
    next
      case failed: True
      show ?thesis
      proof (cases "Contains (cmd_output ?r) notFoundMarker \<and> attempt < maxRetries")
        case True
        from "1.IH"(1)[OF le co[symmetric] refl failed True]
        obtain ext where "trace (snd (addRootsInline (attempt + 1) (cmd_output ?r) su sn pid cid enc
                            (SleepSeconds (attempt * 2) ?w1))) = trace (SleepSeconds (attempt * 2) ?w1) @ ext"
          by blast
        then show ?thesis using le failed True
          by (subst addRootsInline.simps) (simp add: co)
      next
        case nr: False
        show ?thesis
        proof (cases "attempt = maxRetries")
          case True
          then show ?thesis using le failed nr by (subst addRootsInline.simps) (simp add: co)
        next
          case False
          from "1.IH"(2)[OF le co[symmetric] refl failed nr False]
          obtain ext where "trace (snd (addRootsInline (attempt + 1) (cmd_output ?r) su sn pid cid enc
                              ?w1)) = trace ?w1 @ ext"
            by blast
          then show ?thesis using le failed nr False
            by (subst addRootsInline.simps) (simp add: co)
        qed
      qed
    qed
  qed
qed

lemma inline_trace_first:
  assumes "attempt \<le> maxRetries"
  shows "\<exists>rest. trace (snd (addRootsInline attempt arOut su sn pid cid enc w)) =
           trace w @ Exec (addRootsArgs su sn pid cid) # rest"
proof -
  let ?r = "pdptool w (runs w)"
  let ?a = "addRootsArgs su sn pid cid"
  let ?w1 = "ran ?a w"
  have co: "CombinedOutput ?a w = (?r, ?w1)" by (rule CombinedOutput_eq)
  have ext: "\<exists>rest. trace (snd (addRootsInline n out su sn pid cid enc w')) = trace w @ Exec ?a # rest"
    if "\<exists>pre. trace w' = trace w @ Exec ?a # pre" for n out w'
    using inline_trace_extends[of n out su sn pid cid enc w'] that by auto
  show ?thesis
    using assms
    by (subst addRootsInline.simps) (auto simp: co intro!: ext)
qed

section \<open>Running the handlers on a scripted world\<close>

text \<open>The equations that evaluate a handler on a scripted world.\<close>

lemmas eval_defs =
  scriptedWorld_def formRequest_def CombinedOutput_def dbExec_def SleepSeconds_def ran_def
  uploadFileToStorage_def addRootToProofSet_def addRootToProofSet_loop.simps addRootsInline.simps
  maxRetries_def Contains_def notFoundMarker_def sublist_code HasSuffix_def suffix_to_prefix
  ToLower_def isASCII_def toLower_def lowerCaseFragment_def parseRootCID_fullLine_def TrimSpace_def isSpace_def newline_def Let_def
  errorResponse_def

text \<open>The equations that evaluate \<^verbatim>\<open>strings.ToLower\<close> on a byte string.\<close>

lemmas lower_defs =
  ToLower_def isASCII_def toLower_def decodeRunes.simps decodeRune_def encodeRune_def
  unicodeLower_def lowerCaseFragment_def isContinuation_def RuneError_def charOf_def byteOf_def
  strokedA_def

section \<open>The error a retry loop ends with\<close>

text \<open>An error of \<^verbatim>\<open>addRootToProofSet\<close> carries the output of the last run made, and so
  does a response sent from inside the loop of the handler; that loop, entered at an
  attempt within the bound, never ends without a success.\<close>

lemma loop_error_output:
  assumes "attempt \<le> maxRetries"
    "addRootToProofSet_loop attempt su sn pid cid w = (Some err, w')"
  shows "runs w < runs w' \<and> pdptool w' = pdptool w \<and>
         err = ''add-roots failed: '' @ cmd_output (pdptool w (runs w' - 1))"
  using assms
proof (induction attempt su sn pid cid w rule: addRootToProofSet_loop.induct)
  case (1 attempt su sn pid cid w)
  let ?r = "pdptool w (runs w)"
  let ?w1 = "ran (addRootsArgs su sn pid cid) w"
  have co: "CombinedOutput (addRootsArgs su sn pid cid) w = (?r, ?w1)" by (rule CombinedOutput_eq)
  show ?case
  proof (cases "cmd_failed ?r")
    case False
    then have "addRootToProofSet_loop attempt su sn pid cid w = (None, ?w1)"
      using "1.prems"(1) by (rule loop_success[rotated])
    with "1.prems"(2) show ?thesis by simp
  next
    case failed: True
    show ?thesis
    proof (cases "Contains (cmd_output ?r) notFoundMarker \<and> attempt < maxRetries")
      case True
      let ?w2 = "SleepSeconds (attempt * 2) ?w1"
      have "addRootToProofSet_loop attempt su sn pid cid w =
            addRootToProofSet_loop (attempt + 1) su sn pid cid ?w2"
        using True failed by (intro loop_retry) simp_all
      with "1.prems"(2) have "addRootToProofSet_loop (attempt + 1) su sn pid cid ?w2 = (Some err, w')"
        by simp
      with "1.IH"[OF "1.prems"(1) co[symmetric] refl failed True] True
      have "runs ?w2 < runs w' \<and> pdptool w' = pdptool ?w2 \<and>
            err = ''add-roots failed: '' @ cmd_output (pdptool ?w2 (runs w' - 1))"
        by simp
      then show ?thesis by simp
    next
      case False
      then have "addRootToProofSet_loop attempt su sn pid cid w =
                   (Some (''add-roots failed: '' @ cmd_output ?r), ?w1)"
        using "1.prems"(1) failed by (intro loop_terminal) auto
      with "1.prems"(2) show ?thesis by auto
    qed
  qed
qed

lemma inline_responded_output:
  assumes "addRootsInline attempt arOut su sn pid cid enc w = (Responded r, w')"
  shows "runs w < runs w' \<and> pdptool w' = pdptool w \<and> fst r = StatusInternalServerError \<and>
         map_of (snd r) ''error'' = Some (JStr (cmd_output (pdptool w (runs w' - 1))))"
  using assms
proof (induction attempt arOut su sn pid cid enc w rule: addRootsInline.induct)
  case (1 attempt arOut su sn pid cid enc w)
  let ?r = "pdptool w (runs w)"
  let ?w1 = "ran (addRootsArgs su sn pid cid) w"
  have co: "CombinedOutput (addRootsArgs su sn pid cid) w = (?r, ?w1)" by (rule CombinedOutput_eq)
  show ?case
  proof (cases "attempt \<le> maxRetries")
    case False
    then have "addRootsInline attempt arOut su sn pid cid enc w = (LoopEnd arOut False, w)"
      by (subst addRootsInline.simps) simp
    with "1.prems" show ?thesis by simp
  next
    case le: True
    show ?thesis
    proof (cases "cmd_failed ?r")
      case False
      then have "addRootsInline attempt arOut su sn pid cid enc w = (LoopEnd (cmd_output ?r) True, ?w1)"
        using le by (intro inline_success) simp_all
      with "1.prems" show ?thesis by simp
    next
      case failed: True
      show ?thesis
      proof (cases "Contains (cmd_output ?r) notFoundMarker \<and> attempt < maxRetries")
        case True
        let ?w2 = "SleepSeconds (attempt * 2) ?w1"
        have "addRootsInline attempt arOut su sn pid cid enc w =
              addRootsInline (attempt + 1) (cmd_output ?r) su sn pid cid enc ?w2"
          using True failed by (intro inline_retry) simp_all
        with "1.prems" have "addRootsInline (attempt + 1) (cmd_output ?r) su sn pid cid enc ?w2 =
                             (Responded r, w')" by simp
        from "1.IH"(1)[OF le co[symmetric] refl failed True this] show ?thesis by simp
      next
        case nr: False
        show ?thesis
        proof (cases "attempt = maxRetries")
          case True
          then have "addRootsInline attempt arOut su sn pid cid enc w =
             (Responded (StatusInternalServerError,
                [(''error'', JStr (cmd_output ?r)),
                 (''details'', JObj [(''rootCID'', JStr cid), (''attempts'', JInt 3),
                                    (''isEncrypted'', JBool enc)])]), ?w1)"
            using failed by (intro inline_last) simp_all
          with "1.prems" show ?thesis by auto
        next
          case False
          then have lt: "attempt < maxRetries" using le by simp
          with nr have nc: "\<not> Contains (cmd_output ?r) notFoundMarker" by simp
          have "addRootsInline attempt arOut su sn pid cid enc w =
                addRootsInline (attempt + 1) (cmd_output ?r) su sn pid cid enc ?w1"
            using lt failed nc by (intro inline_fallthrough) simp_all
          with "1.prems" have "addRootsInline (attempt + 1) (cmd_output ?r) su sn pid cid enc ?w1 =
                               (Responded r, w')" by simp
          from "1.IH"(2)[OF le co[symmetric] refl failed nr False this] show ?thesis by simp
        qed
      qed
    qed
  qed
qed

lemma inline_end_success:
  assumes "attempt \<le> maxRetries"
    "addRootsInline attempt arOut su sn pid cid enc w = (LoopEnd out ok, w')"
  shows "ok"
  using assms
proof (induction attempt arOut su sn pid cid enc w rule: addRootsInline.induct)
  case (1 attempt arOut su sn pid cid enc w)
  let ?r = "pdptool w (runs w)"
  let ?w1 = "ran (addRootsArgs su sn pid cid) w"
  have co: "CombinedOutput (addRootsArgs su sn pid cid) w = (?r, ?w1)" by (rule CombinedOutput_eq)
  have le: "attempt \<le> maxRetries" by (rule "1.prems"(1))
  show ?case
  proof (cases "cmd_failed ?r")
    case False
    then have "addRootsInline attempt arOut su sn pid cid enc w = (LoopEnd (cmd_output ?r) True, ?w1)"
      using le by (intro inline_success) simp_all
    with "1.prems"(2) show ?thesis by simp
  next
    case failed: True
    show ?thesis
    proof (cases "Contains (cmd_output ?r) notFoundMarker \<and> attempt < maxRetries")
      case True
      let ?w2 = "SleepSeconds (attempt * 2) ?w1"
      have "addRootsInline attempt arOut su sn pid cid enc w =
            addRootsInline (attempt + 1) (cmd_output ?r) su sn pid cid enc ?w2"
        using True failed by (intro inline_retry) simp_all
      with "1.prems"(2) have "addRootsInline (attempt + 1) (cmd_output ?r) su sn pid cid enc ?w2 =
                           (LoopEnd out ok, w')" by simp
      moreover have "attempt + 1 \<le> maxRetries" using True by simp
      ultimately show ?thesis using "1.IH"(1)[OF le co[symmetric] refl failed True] by simp
    next
      case nr: False
      show ?thesis
      proof (cases "attempt = maxRetries")
        case True
        then have "addRootsInline attempt arOut su sn pid cid enc w =
           (Responded (StatusInternalServerError,
              [(''error'', JStr (cmd_output ?r)),
               (''details'', JObj [(''rootCID'', JStr cid), (''attempts'', JInt 3),
                                  (''isEncrypted'', JBool enc)])]), ?w1)"
          using failed by (intro inline_last) simp_all
        with "1.prems"(2) show ?thesis by simp
      next
        case False
        then have lt: "attempt < maxRetries" using le by simp
        with nr have nc: "\<not> Contains (cmd_output ?r) notFoundMarker" by simp
        have "addRootsInline attempt arOut su sn pid cid enc w =
              addRootsInline (attempt + 1) (cmd_output ?r) su sn pid cid enc ?w1"
          using lt failed nc by (intro inline_fallthrough) simp_all
        with "1.prems"(2) have "addRootsInline (attempt + 1) (cmd_output ?r) su sn pid cid enc ?w1 =
                             (LoopEnd out ok, w')" by simp
        moreover have "attempt + 1 \<le> maxRetries" using lt by simp
        ultimately show ?thesis using "1.IH"(2)[OF le co[symmetric] refl failed nr False] by simp
      qed
    qed
  qed
qed

lemma root_handler_bind_error:
  assumes pre: "postForm req ''proofSetID'' \<noteq> []" "formFile req = Some filename"
      "createTemp w = Inr tmpPath" "copyErr w = None" "\<not> cmd_failed (pdptool w (runs w))"
    and st: "fst (fst (uploadAndAddRootHandler req w)) = StatusInternalServerError"
  shows "map_of (snd (fst (uploadAndAddRootHandler req w))) ''error'' =
           Some (JStr (cmd_output (pdptool w (runs (snd (uploadAndAddRootHandler req w)) - 1))))"
proof -
  let ?su = "postForm req ''serviceUrl''" and ?sn = "postForm req ''serviceName''"
  let ?pid = "postForm req ''proofSetID''"
  let ?cid = "parseRootCID_fullLine (cmd_output (pdptool w (runs w)))"
  let ?enc = "HasSuffix (ToLower (unicodeToLower w) filename) ''.enc''"
  let ?w1 = "ran (uploadFileArgs ?su ?sn tmpPath) w"
  let ?w2 = "if ?enc then SleepSeconds 3 ?w1 else ?w1"
  obtain ex w3 where loop: "addRootsInline 1 [] ?su ?sn ?pid ?cid ?enc ?w2 = (ex, w3)"
    by (cases "addRootsInline 1 [] ?su ?sn ?pid ?cid ?enc ?w2") auto
  have pd: "pdptool ?w2 = pdptool w" by simp
  show ?thesis
  proof (cases ex)
    case (Responded r)
    with loop have h: "uploadAndAddRootHandler req w = (r, w3)"
      using pre by (simp add: uploadAndAddRootHandler_def CombinedOutput_eq Let_def)
    from inline_responded_output[OF loop[unfolded Responded]] pd
    have "map_of (snd r) ''error'' = Some (JStr (cmd_output (pdptool w (runs w3 - 1))))"
      by simp
    with h show ?thesis by simp
  next
    case (LoopEnd out ok)
    with loop have "ok" using inline_end_success[of 1 "[]" ?su ?sn ?pid ?cid ?enc ?w2 out ok w3]
      by (simp add: maxRetries_def)
    with loop LoopEnd have "fst (fst (uploadAndAddRootHandler req w)) = StatusOK"
      using pre by (simp add: uploadAndAddRootHandler_def CombinedOutput_eq dbExec_def Let_def)
    with st show ?thesis by (simp add: StatusOK_def StatusInternalServerError_def)
  qed
qed

section \<open>The claims\<close>

subsection \<open>C1: retrying while the proof set is not yet visible\<close>

text \<open>
  Claim C1. When every failed add-roots run among the next three carries the marker
  \<^verbatim>\<open>not found or does not belong to service\<close> in its output, binding a root runs
  add-roots until the first success, at most 3 times, sleeps 2 seconds after the first
  failed attempt and 4 seconds after the second, and, when all three attempts fail,
  returns an error that carries the output of the third. This holds for the helper
  \<^verbatim>\<open>addRootToProofSet\<close> and for the loop inside \<^verbatim>\<open>uploadAndAddRootHandler\<close>. The
  field \<open>runs\<close> counts the runs of the tool and \<open>trace\<close> lists the runs and sleeps in
  order.
\<close>

theorem C1_bind_retries:
  fixes w :: world
  assumes "\<forall>k<3. cmd_failed (pdptool w (runs w + k)) \<longrightarrow>
             Contains (cmd_output (pdptool w (runs w + k))) notFoundMarker"
  shows "let a = addRootsArgs su sn pid cid;
             f = (\<lambda>k. cmd_failed (pdptool w (runs w + k)));
             out = (\<lambda>k. cmd_output (pdptool w (runs w + k)))
         in addRootToProofSet su sn pid cid w =
              (if \<not> f 0 then (None, w\<lparr>runs := runs w + 1, trace := trace w @ [Exec a]\<rparr>)
               else if \<not> f 1 then
                 (None, w\<lparr>runs := runs w + 2, trace := trace w @ [Exec a, Sleep 2, Exec a]\<rparr>)
               else
                 (if f 2 then Some (''add-roots failed: '' @ out 2) else None,
                  w\<lparr>runs := runs w + 3,
                    trace := trace w @ [Exec a, Sleep 2, Exec a, Sleep 4, Exec a]\<rparr>))
          \<and> addRootsInline 1 [] su sn pid cid enc w =
              (if \<not> f 0 then
                 (LoopEnd (out 0) True, w\<lparr>runs := runs w + 1, trace := trace w @ [Exec a]\<rparr>)
               else if \<not> f 1 then
                 (LoopEnd (out 1) True,
                  w\<lparr>runs := runs w + 2, trace := trace w @ [Exec a, Sleep 2, Exec a]\<rparr>)
               else
                 (if f 2 then
                    Responded (StatusInternalServerError,
                      [(''error'', JStr (out 2)),
                       (''details'', JObj [(''rootCID'', JStr cid), (''attempts'', JInt 3),
                                          (''isEncrypted'', JBool enc)])])
                  else LoopEnd (out 2) True,
                  w\<lparr>runs := runs w + 3,
                    trace := trace w @ [Exec a, Sleep 2, Exec a, Sleep 4, Exec a]\<rparr>))"
  unfolding Let_def
  using addRootToProofSet_transient[OF assms refl refl refl]
    addRootsInline_transient[OF assms refl refl refl]
  by (rule conjI)

text \<open>Three failures with the marker: three runs, sleeps of 2 and 4 seconds, and the third
  output in the error.\<close>

theorem C1_bind_retries_witness:
  "cmd_failed (pdptool threeTransient (runs threeTransient)) \<and>
   Contains (cmd_output (pdptool threeTransient (runs threeTransient))) notFoundMarker \<and>
   cmd_failed (pdptool threeTransient (runs threeTransient + 1)) \<and>
   Contains (cmd_output (pdptool threeTransient (runs threeTransient + 1))) notFoundMarker \<and>
   cmd_failed (pdptool threeTransient (runs threeTransient + 2)) \<and>
   Contains (cmd_output (pdptool threeTransient (runs threeTransient + 2))) notFoundMarker \<and>
   addRootToProofSet ''u'' ''s'' ''7'' ''cid'' threeTransient =
     (Some ''add-roots failed: third: proof set 7 not found or does not belong to service'',
      threeTransient\<lparr>runs := 3,
        trace := [Exec (addRootsArgs ''u'' ''s'' ''7'' ''cid''), Sleep 2,
                  Exec (addRootsArgs ''u'' ''s'' ''7'' ''cid''), Sleep 4,
                  Exec (addRootsArgs ''u'' ''s'' ''7'' ''cid'')]\<rparr>) \<and>
   addRootsInline 1 [] ''u'' ''s'' ''7'' ''cid'' False threeTransient =
     (Responded (StatusInternalServerError,
        [(''error'', JStr ''third: proof set 7 not found or does not belong to service''),
         (''details'', JObj [(''rootCID'', JStr ''cid''), (''attempts'', JInt 3),
                            (''isEncrypted'', JBool False)])]),
      threeTransient\<lparr>runs := 3,
        trace := [Exec (addRootsArgs ''u'' ''s'' ''7'' ''cid''), Sleep 2,
                  Exec (addRootsArgs ''u'' ''s'' ''7'' ''cid''), Sleep 4,
                  Exec (addRootsArgs ''u'' ''s'' ''7'' ''cid'')]\<rparr>)"
proof -
  have h: "\<forall>k<3. cmd_failed (pdptool threeTransient (runs threeTransient + k)) \<longrightarrow>
      Contains (cmd_output (pdptool threeTransient (runs threeTransient + k))) notFoundMarker"
    by (simp add: all_less_3 threeTransient_def scriptedWorld_def Contains_def notFoundMarker_def
          sublist_code)
  show ?thesis
    using h C1_bind_retries[OF h, of "''u''" "''s''" "''7''" "''cid''" False]
    by (simp add: Let_def all_less_3 threeTransient_def scriptedWorld_def)
qed

subsection \<open>C2: a failure without the marker\<close>

text \<open>
  Claim C2 says that a failure whose output lacks the marker is returned at once, with no
  further add-roots run, also in the loop inside \<^verbatim>\<open>uploadAndAddRootHandler\<close>. There
  the loop goes on instead: with the first add-roots run failing with
  \<^verbatim>\<open>permission denied\<close> and the second succeeding, the handler runs add-roots twice,
  without a sleep in between, and answers 200. The helper \<^verbatim>\<open>addRootToProofSet\<close>, from
  the same add-roots results, returns the failure after one run.
\<close>

theorem C2_inline_loop_goes_on:
  "\<not> Contains ''permission denied'' notFoundMarker \<and>
   uploadAndAddRootHandler bindRequest deniedThenOk =
     ((StatusOK,
       [(''proofSetID'', JStr ''7''), (''rootCID'', JStr ''baga6ea4''),
        (''addRoots'', JStr ''roots added''), (''isEncrypted'', JBool False)]),
      deniedThenOk\<lparr>runs := 3, stmts := 1,
        trace := [Exec (uploadFileArgs ''https://pdp.example'' ''svc'' ''/tmp/pdp-upload-1''),
                  Exec (addRootsArgs ''https://pdp.example'' ''svc'' ''7'' ''baga6ea4''),
                  Exec (addRootsArgs ''https://pdp.example'' ''svc'' ''7'' ''baga6ea4''),
                  DbExec insertFileCidsRoot [JStr ''data.bin'', JStr ''baga6ea4'']]\<rparr>) \<and>
   addRootToProofSet ''https://pdp.example'' ''svc'' ''7'' ''baga6ea4''
     (deniedThenOk\<lparr>runs := 1\<rparr>) =
     (Some ''add-roots failed: permission denied'',
      deniedThenOk\<lparr>runs := 2,
        trace := [Exec (addRootsArgs ''https://pdp.example'' ''svc'' ''7'' ''baga6ea4'')]\<rparr>)"
  by (simp add: uploadAndAddRootHandler_def bindRequest_def deniedThenOk_def eval_defs)

subsection \<open>C3: failures of the metadata store\<close>

text \<open>
  Claim C3, as amended. Once the upload and the binding have succeeded, a failure of the
  insert into \<^verbatim>\<open>file_cids\<close> is not fatal in any of the four handlers: the statement is
  sent and the response is 200 whatever its outcome. A failure of the typed insert
  (paper, genome, spectrum) is fatal: the handler answers 500 with
  \<^verbatim>\<open>Failed to save ... metadata\<close> and does not send the insert into
  \<^verbatim>\<open>file_cids\<close>. Here \<open>w2\<close> (for \<^verbatim>\<open>uploadAndAddRootHandler\<close>, \<open>w3\<close>) is the world
  after the binding, \<open>dbfails w2 (stmts w2)\<close> says whether the next statement, the typed
  insert, fails, and nothing is assumed about the statement after it.
\<close>

theorem C3_store_failures:
  "(postForm req ''proofSetID'' \<noteq> [] \<and> formFile req = Some filename \<and>
    createTemp w = Inr tmpPath \<and> copyErr w = None \<and> \<not> cmd_failed (pdptool w (runs w)) \<and>
    addRootsInline 1 [] (postForm req ''serviceUrl'') (postForm req ''serviceName'')
      (postForm req ''proofSetID'') (parseRootCID_fullLine (cmd_output (pdptool w (runs w))))
      (HasSuffix (ToLower (unicodeToLower w) filename) ''.enc'')
      (if HasSuffix (ToLower (unicodeToLower w) filename) ''.enc''
       then SleepSeconds 3
              (ran (uploadFileArgs (postForm req ''serviceUrl'') (postForm req ''serviceName'') tmpPath) w)
       else ran (uploadFileArgs (postForm req ''serviceUrl'') (postForm req ''serviceName'') tmpPath) w)
      = (LoopEnd arOut True, w3)
    \<longrightarrow> fst (fst (uploadAndAddRootHandler req w)) = StatusOK \<and>
        trace (snd (uploadAndAddRootHandler req w)) =
          trace w3 @ [DbExec insertFileCidsRoot
                        [JStr filename,
                         JStr (parseRootCID_fullLine (cmd_output (pdptool w (runs w))))]])
   \<and> (\<not> parseFormFails req \<and> postForm req ''proofSetID'' \<noteq> [] \<and> formFile req = Some filename \<and>
       uploadFileToStorage filename (postForm req ''serviceUrl'') (postForm req ''serviceName'') w
         = (Inr rootCID, w1) \<and>
       addRootToProofSet (postForm req ''serviceUrl'') (postForm req ''serviceName'')
         (postForm req ''proofSetID'') rootCID w1 = (None, w2)
    \<longrightarrow> (postForm req ''title'' \<noteq> [] \<longrightarrow>
           (if dbfails w2 (stmts w2)
            then fst (uploadAndAddPaperHandler req w) =
                   errorResponse StatusInternalServerError ''Failed to save paper metadata'' \<and>
                 stmts (snd (uploadAndAddPaperHandler req w)) = stmts w2 + 1
            else fst (fst (uploadAndAddPaperHandler req w)) = StatusOK \<and>
                 stmts (snd (uploadAndAddPaperHandler req w)) = stmts w2 + 2))
      \<and> (postForm req ''organism'' \<noteq> [] \<longrightarrow>
           (if dbfails w2 (stmts w2)
            then fst (uploadAndAddGenomeHandler req w) =
                   errorResponse StatusInternalServerError ''Failed to save genome metadata'' \<and>
                 stmts (snd (uploadAndAddGenomeHandler req w)) = stmts w2 + 1
            else fst (fst (uploadAndAddGenomeHandler req w)) = StatusOK \<and>
                 stmts (snd (uploadAndAddGenomeHandler req w)) = stmts w2 + 2))
      \<and> (postForm req ''compound'' \<noteq> [] \<and>
          (postForm req ''metadata'' = [] \<or> jsonUnmarshal w (postForm req ''metadata'') \<noteq> None) \<longrightarrow>
           (if dbfails w2 (stmts w2)
            then fst (uploadAndAddSpectrumHandler req w) =
                   errorResponse StatusInternalServerError ''Failed to save spectrum metadata'' \<and>
                 stmts (snd (uploadAndAddSpectrumHandler req w)) = stmts w2 + 1
            else fst (fst (uploadAndAddSpectrumHandler req w)) = StatusOK \<and>
                 stmts (snd (uploadAndAddSpectrumHandler req w)) = stmts w2 + 2)))"
proof (intro conjI impI)
  assume a: "postForm req ''proofSetID'' \<noteq> [] \<and> formFile req = Some filename \<and>
    createTemp w = Inr tmpPath \<and> copyErr w = None \<and> \<not> cmd_failed (pdptool w (runs w)) \<and>
    addRootsInline 1 [] (postForm req ''serviceUrl'') (postForm req ''serviceName'')
      (postForm req ''proofSetID'') (parseRootCID_fullLine (cmd_output (pdptool w (runs w))))
      (HasSuffix (ToLower (unicodeToLower w) filename) ''.enc'')
      (if HasSuffix (ToLower (unicodeToLower w) filename) ''.enc''
       then SleepSeconds 3
              (ran (uploadFileArgs (postForm req ''serviceUrl'') (postForm req ''serviceName'') tmpPath) w)
       else ran (uploadFileArgs (postForm req ''serviceUrl'') (postForm req ''serviceName'') tmpPath) w)
      = (LoopEnd arOut True, w3)"
  then show "fst (fst (uploadAndAddRootHandler req w)) = StatusOK"
    by (simp add: uploadAndAddRootHandler_def CombinedOutput_eq dbExec_def Let_def)
  from a show "trace (snd (uploadAndAddRootHandler req w)) =
          trace w3 @ [DbExec insertFileCidsRoot
                        [JStr filename,
                         JStr (parseRootCID_fullLine (cmd_output (pdptool w (runs w))))]]"
    by (simp add: uploadAndAddRootHandler_def CombinedOutput_eq dbExec_def Let_def)
next
  assume a: "\<not> parseFormFails req \<and> postForm req ''proofSetID'' \<noteq> [] \<and> formFile req = Some filename \<and>
       uploadFileToStorage filename (postForm req ''serviceUrl'') (postForm req ''serviceName'') w
         = (Inr rootCID, w1) \<and>
       addRootToProofSet (postForm req ''serviceUrl'') (postForm req ''serviceName'')
         (postForm req ''proofSetID'') rootCID w1 = (None, w2)"
    and b: "postForm req ''title'' \<noteq> []"
  then show "if dbfails w2 (stmts w2)
            then fst (uploadAndAddPaperHandler req w) =
                   errorResponse StatusInternalServerError ''Failed to save paper metadata'' \<and>
                 stmts (snd (uploadAndAddPaperHandler req w)) = stmts w2 + 1
            else fst (fst (uploadAndAddPaperHandler req w)) = StatusOK \<and>
                 stmts (snd (uploadAndAddPaperHandler req w)) = stmts w2 + 2"
    by (simp add: uploadAndAddPaperHandler_def dbExec_def Let_def)
next
  assume a: "\<not> parseFormFails req \<and> postForm req ''proofSetID'' \<noteq> [] \<and> formFile req = Some filename \<and>
       uploadFileToStorage filename (postForm req ''serviceUrl'') (postForm req ''serviceName'') w
         = (Inr rootCID, w1) \<and>
       addRootToProofSet (postForm req ''serviceUrl'') (postForm req ''serviceName'')
         (postForm req ''proofSetID'') rootCID w1 = (None, w2)"
    and b: "postForm req ''organism'' \<noteq> []"
  then show "if dbfails w2 (stmts w2)
            then fst (uploadAndAddGenomeHandler req w) =
                   errorResponse StatusInternalServerError ''Failed to save genome metadata'' \<and>
                 stmts (snd (uploadAndAddGenomeHandler req w)) = stmts w2 + 1
            else fst (fst (uploadAndAddGenomeHandler req w)) = StatusOK \<and>
                 stmts (snd (uploadAndAddGenomeHandler req w)) = stmts w2 + 2"
    by (simp add: uploadAndAddGenomeHandler_def dbExec_def Let_def)
next
  assume a: "\<not> parseFormFails req \<and> postForm req ''proofSetID'' \<noteq> [] \<and> formFile req = Some filename \<and>
       uploadFileToStorage filename (postForm req ''serviceUrl'') (postForm req ''serviceName'') w
         = (Inr rootCID, w1) \<and>
       addRootToProofSet (postForm req ''serviceUrl'') (postForm req ''serviceName'')
         (postForm req ''proofSetID'') rootCID w1 = (None, w2)"
    and b: "postForm req ''compound'' \<noteq> [] \<and>
          (postForm req ''metadata'' = [] \<or> jsonUnmarshal w (postForm req ''metadata'') \<noteq> None)"
  then show "if dbfails w2 (stmts w2)
            then fst (uploadAndAddSpectrumHandler req w) =
                   errorResponse StatusInternalServerError ''Failed to save spectrum metadata'' \<and>
                 stmts (snd (uploadAndAddSpectrumHandler req w)) = stmts w2 + 1
            else fst (fst (uploadAndAddSpectrumHandler req w)) = StatusOK \<and>
                 stmts (snd (uploadAndAddSpectrumHandler req w)) = stmts w2 + 2"
    by (auto simp add: uploadAndAddSpectrumHandler_def dbExec_def Let_def)
qed

text \<open>Claim C3 as stated fails for the typed insert: the upload and the binding succeed,
  the insert into \<^verbatim>\<open>paper\<close> fails, and \<^verbatim>\<open>uploadAndAddPaperHandler\<close> answers 500
  without sending the insert into \<^verbatim>\<open>file_cids\<close>.\<close>

theorem C3_typed_insert_fatal:
  "uploadFileToStorage ''data.bin'' ''https://pdp.example'' ''svc'' storeFailsFirst =
     (Inr ''baga6ea4'',
      storeFailsFirst\<lparr>runs := 1,
        trace := [Exec (uploadFileArgs ''https://pdp.example'' ''svc'' ''/tmp/pdp-upload-1'')]\<rparr>) \<and>
   addRootToProofSet ''https://pdp.example'' ''svc'' ''7'' ''baga6ea4''
     (storeFailsFirst\<lparr>runs := 1,
        trace := [Exec (uploadFileArgs ''https://pdp.example'' ''svc'' ''/tmp/pdp-upload-1'')]\<rparr>) =
     (None,
      storeFailsFirst\<lparr>runs := 2,
        trace := [Exec (uploadFileArgs ''https://pdp.example'' ''svc'' ''/tmp/pdp-upload-1''),
                  Exec (addRootsArgs ''https://pdp.example'' ''svc'' ''7'' ''baga6ea4'')]\<rparr>) \<and>
   uploadAndAddPaperHandler typedRequest storeFailsFirst =
     ((StatusInternalServerError, [(''error'', JStr ''Failed to save paper metadata'')]),
      storeFailsFirst\<lparr>runs := 2, stmts := 1,
        trace := [Exec (uploadFileArgs ''https://pdp.example'' ''svc'' ''/tmp/pdp-upload-1''),
                  Exec (addRootsArgs ''https://pdp.example'' ''svc'' ''7'' ''baga6ea4''),
                  DbExec insertPaper
                    [JStr ''baga6ea4'', JStr ''Proofs of data possession'', JStr ''JoS'',
                     JInt 2023, JArr [JStr ''pdp'', JStr ''storage'']]]\<rparr>)"
  by (simp add: eval_defs storeFailsFirst_def typedRequest_def uploadAndAddPaperHandler_def
        Atoi_def isDigit_def digitVal_def)

text \<open>With the upload and the binding done: a failing insert into \<^verbatim>\<open>file_cids\<close> (the
  second statement of the typed handlers, the first of \<^verbatim>\<open>uploadAndAddRootHandler\<close>)
  leaves the response at 200.\<close>

theorem C3_store_failures_witness:
  "uploadFileToStorage ''data.bin'' ''https://pdp.example'' ''svc'' storeFailsSecond =
     (Inr ''baga6ea4'',
      storeFailsSecond\<lparr>runs := 1,
        trace := [Exec (uploadFileArgs ''https://pdp.example'' ''svc'' ''/tmp/pdp-upload-1'')]\<rparr>) \<and>
   addRootToProofSet ''https://pdp.example'' ''svc'' ''7'' ''baga6ea4''
     (storeFailsSecond\<lparr>runs := 1,
        trace := [Exec (uploadFileArgs ''https://pdp.example'' ''svc'' ''/tmp/pdp-upload-1'')]\<rparr>) =
     (None,
      storeFailsSecond\<lparr>runs := 2,
        trace := [Exec (uploadFileArgs ''https://pdp.example'' ''svc'' ''/tmp/pdp-upload-1''),
                  Exec (addRootsArgs ''https://pdp.example'' ''svc'' ''7'' ''baga6ea4'')]\<rparr>) \<and>
   \<not> dbfails storeFailsSecond 0 \<and> dbfails storeFailsSecond 1 \<and>
   fst (fst (uploadAndAddPaperHandler typedRequest storeFailsSecond)) = StatusOK \<and>
   stmts (snd (uploadAndAddPaperHandler typedRequest storeFailsSecond)) = 2 \<and>
   fst (fst (uploadAndAddGenomeHandler typedRequest storeFailsSecond)) = StatusOK \<and>
   stmts (snd (uploadAndAddGenomeHandler typedRequest storeFailsSecond)) = 2 \<and>
   fst (fst (uploadAndAddSpectrumHandler typedRequest storeFailsSecond)) = StatusOK \<and>
   stmts (snd (uploadAndAddSpectrumHandler typedRequest storeFailsSecond)) = 2 \<and>
   dbfails storeFailsFirst 0 \<and>
   fst (fst (uploadAndAddRootHandler typedRequest storeFailsFirst)) = StatusOK \<and>
   trace (snd (uploadAndAddRootHandler typedRequest storeFailsFirst)) =
     [Exec (uploadFileArgs ''https://pdp.example'' ''svc'' ''/tmp/pdp-upload-1''),
      Exec (addRootsArgs ''https://pdp.example'' ''svc'' ''7'' ''baga6ea4''),
      DbExec insertFileCidsRoot [JStr ''data.bin'', JStr ''baga6ea4'']]"
proof -
  let ?su = "''https://pdp.example''" and ?sn = "''svc''"
  let ?w1 = "storeFailsSecond\<lparr>runs := 1,
        trace := [Exec (uploadFileArgs ?su ?sn ''/tmp/pdp-upload-1'')]\<rparr>"
  let ?w2 = "storeFailsSecond\<lparr>runs := 2,
        trace := [Exec (uploadFileArgs ?su ?sn ''/tmp/pdp-upload-1''),
                  Exec (addRootsArgs ?su ?sn ''7'' ''baga6ea4'')]\<rparr>"
  let ?v3 = "storeFailsFirst\<lparr>runs := 2,
        trace := [Exec (uploadFileArgs ?su ?sn ''/tmp/pdp-upload-1''),
                  Exec (addRootsArgs ?su ?sn ''7'' ''baga6ea4'')]\<rparr>"
  have f: "postForm typedRequest ''serviceUrl'' = ?su" "postForm typedRequest ''serviceName'' = ?sn"
    "postForm typedRequest ''proofSetID'' = ''7''" "formFile typedRequest = Some ''data.bin''"
    "\<not> parseFormFails typedRequest" "postForm typedRequest ''metadata'' = []"
    "postForm typedRequest ''title'' \<noteq> []" "postForm typedRequest ''organism'' \<noteq> []"
    "postForm typedRequest ''compound'' \<noteq> []"
    by (simp_all add: typedRequest_def formRequest_def)
  have up: "uploadFileToStorage ''data.bin'' ?su ?sn storeFailsSecond = (Inr ''baga6ea4'', ?w1)"
    by (simp add: eval_defs storeFailsSecond_def)
  have bind: "addRootToProofSet ?su ?sn ''7'' ''baga6ea4'' ?w1 = (None, ?w2)"
    by (simp add: eval_defs storeFailsSecond_def)
  have db: "\<not> dbfails storeFailsSecond 0" "dbfails storeFailsSecond 1" "dbfails storeFailsFirst 0"
    by (simp_all add: storeFailsSecond_def storeFailsFirst_def scriptedWorld_def)
  have w2: "\<not> dbfails ?w2 (stmts ?w2)" "stmts ?w2 = 0"
    by (simp_all add: storeFailsSecond_def scriptedWorld_def)
  have typed: "\<not> parseFormFails typedRequest \<and> postForm typedRequest ''proofSetID'' \<noteq> [] \<and>
       formFile typedRequest = Some ''data.bin'' \<and>
       uploadFileToStorage ''data.bin'' (postForm typedRequest ''serviceUrl'')
         (postForm typedRequest ''serviceName'') storeFailsSecond = (Inr ''baga6ea4'', ?w1) \<and>
       addRootToProofSet (postForm typedRequest ''serviceUrl'') (postForm typedRequest ''serviceName'')
         (postForm typedRequest ''proofSetID'') ''baga6ea4'' ?w1 = (None, ?w2)"
    using up bind by (simp add: f)
  note inst = C3_store_failures[of typedRequest "''data.bin''" storeFailsSecond _ _ _
      "''baga6ea4''" ?w1 ?w2, THEN conjunct2, THEN mp, OF typed]
  have paper: "fst (fst (uploadAndAddPaperHandler typedRequest storeFailsSecond)) = StatusOK \<and>
               stmts (snd (uploadAndAddPaperHandler typedRequest storeFailsSecond)) = 2"
    using inst[THEN conjunct1, THEN mp, OF f(7)] w2 by simp
  have genome: "fst (fst (uploadAndAddGenomeHandler typedRequest storeFailsSecond)) = StatusOK \<and>
               stmts (snd (uploadAndAddGenomeHandler typedRequest storeFailsSecond)) = 2"
    using inst[THEN conjunct2, THEN conjunct1, THEN mp, OF f(8)] w2 by simp
  have spectrum: "fst (fst (uploadAndAddSpectrumHandler typedRequest storeFailsSecond)) = StatusOK \<and>
               stmts (snd (uploadAndAddSpectrumHandler typedRequest storeFailsSecond)) = 2"
    using inst[THEN conjunct2, THEN conjunct2, THEN mp, OF conjI[OF f(9) disjI1[OF f(6)]]] w2
    by simp
  have enc: "\<not> HasSuffix (ToLower (unicodeToLower storeFailsFirst) ''data.bin'') ''.enc''"
    by (simp add: HasSuffix_def suffix_to_prefix ToLower_def isASCII_def toLower_def)
  have cid: "parseRootCID_fullLine (cmd_output (pdptool storeFailsFirst (runs storeFailsFirst))) =
             ''baga6ea4''"
    by (simp add: eval_defs storeFailsFirst_def)
  have loop: "addRootsInline 1 [] ?su ?sn ''7'' ''baga6ea4'' False
                (ran (uploadFileArgs ?su ?sn ''/tmp/pdp-upload-1'') storeFailsFirst) =
              (LoopEnd ''roots added'' True, ?v3)"
    by (simp add: eval_defs storeFailsFirst_def)
  have root: "postForm typedRequest ''proofSetID'' \<noteq> [] \<and> formFile typedRequest = Some ''data.bin'' \<and>
    createTemp storeFailsFirst = Inr ''/tmp/pdp-upload-1'' \<and> copyErr storeFailsFirst = None \<and>
    \<not> cmd_failed (pdptool storeFailsFirst (runs storeFailsFirst)) \<and>
    addRootsInline 1 [] (postForm typedRequest ''serviceUrl'') (postForm typedRequest ''serviceName'')
      (postForm typedRequest ''proofSetID'')
      (parseRootCID_fullLine (cmd_output (pdptool storeFailsFirst (runs storeFailsFirst))))
      (HasSuffix (ToLower (unicodeToLower storeFailsFirst) ''data.bin'') ''.enc'')
      (if HasSuffix (ToLower (unicodeToLower storeFailsFirst) ''data.bin'') ''.enc''
       then SleepSeconds 3
              (ran (uploadFileArgs (postForm typedRequest ''serviceUrl'')
                     (postForm typedRequest ''serviceName'') ''/tmp/pdp-upload-1'') storeFailsFirst)
       else ran (uploadFileArgs (postForm typedRequest ''serviceUrl'')
                   (postForm typedRequest ''serviceName'') ''/tmp/pdp-upload-1'') storeFailsFirst)
      = (LoopEnd ''roots added'' True, ?v3)"
    unfolding f cid using enc loop by (simp add: storeFailsFirst_def scriptedWorld_def)
  have rootc: "fst (fst (uploadAndAddRootHandler typedRequest storeFailsFirst)) = StatusOK \<and>
     trace (snd (uploadAndAddRootHandler typedRequest storeFailsFirst)) =
     [Exec (uploadFileArgs ?su ?sn ''/tmp/pdp-upload-1''),
      Exec (addRootsArgs ?su ?sn ''7'' ''baga6ea4''),
      DbExec insertFileCidsRoot [JStr ''data.bin'', JStr ''baga6ea4'']]"
    using C3_store_failures[of typedRequest "''data.bin''" storeFailsFirst "''/tmp/pdp-upload-1''"
            "''roots added''" ?v3, THEN conjunct1, THEN mp, OF root] cid
    by simp
  show ?thesis
    using up bind db paper genome spectrum rootc by (intro conjI) simp_all
qed

subsection \<open>C4: what the error payload carries\<close>

text \<open>
  Claim C4, as amended. When a run of upload-file or add-roots ends a request of
  \<^verbatim>\<open>uploadAndAddRootHandler\<close> with status 500, the \<^verbatim>\<open>error\<close> field is the raw output
  of that run, the last one made. In the three typed handlers the field is the error of
  the helper, which is that output after the prefix \<^verbatim>\<open>upload-file failed: \<close> or
  \<^verbatim>\<open>add-roots failed: \<close>. \<^verbatim>\<open>createProofSetHandler\<close> returns the raw output of a failed
  create-proof-set run. \<^verbatim>\<open>orchestrateHandler\<close>, \<^verbatim>\<open>uploadFileHandler\<close> and
  \<^verbatim>\<open>addRootsHandler\<close> do not return the output: their error is the fixed text
  \<^verbatim>\<open>create-proof-set failed\<close>, \<^verbatim>\<open>upload-file failed\<close> or \<^verbatim>\<open>add-roots failed\<close>.
\<close>

theorem C4_error_payload:
  "(postForm req ''proofSetID'' \<noteq> [] \<and> formFile req = Some filename \<and>
    createTemp w = Inr tmpPath \<and> copyErr w = None
    \<longrightarrow> (cmd_failed (pdptool w (runs w)) \<longrightarrow>
           fst (uploadAndAddRootHandler req w) =
             errorResponse StatusInternalServerError (cmd_output (pdptool w (runs w))))
       \<and> (\<not> cmd_failed (pdptool w (runs w)) \<and>
          fst (fst (uploadAndAddRootHandler req w)) = StatusInternalServerError \<longrightarrow>
           map_of (snd (fst (uploadAndAddRootHandler req w))) ''error'' =
             Some (JStr (cmd_output
                     (pdptool w (runs (snd (uploadAndAddRootHandler req w)) - 1))))))
   \<and> (createTemp w = Inr tmpPath \<and> copyErr w = None \<and> cmd_failed (pdptool w (runs w))
    \<longrightarrow> fst (uploadFileToStorage filename su sn w) =
          Inl (''upload-file failed: '' @ cmd_output (pdptool w (runs w))))
   \<and> (addRootToProofSet su sn pid cid w = (Some err, w')
    \<longrightarrow> err = ''add-roots failed: '' @ cmd_output (pdptool w (runs w' - 1)))
   \<and> (\<not> parseFormFails req \<and> postForm req ''proofSetID'' \<noteq> [] \<and> formFile req = Some filename \<and>
       (uploadFileToStorage filename (postForm req ''serviceUrl'') (postForm req ''serviceName'') w
          = (Inl err, w1) \<or>
        uploadFileToStorage filename (postForm req ''serviceUrl'') (postForm req ''serviceName'') w
          = (Inr rootCID, w0) \<and>
        addRootToProofSet (postForm req ''serviceUrl'') (postForm req ''serviceName'')
          (postForm req ''proofSetID'') rootCID w0 = (Some err, w1))
    \<longrightarrow> (postForm req ''title'' \<noteq> [] \<longrightarrow>
           uploadAndAddPaperHandler req w = (errorResponse StatusInternalServerError err, w1))
       \<and> (postForm req ''organism'' \<noteq> [] \<longrightarrow>
           uploadAndAddGenomeHandler req w = (errorResponse StatusInternalServerError err, w1))
       \<and> (postForm req ''compound'' \<noteq> [] \<and>
           (postForm req ''metadata'' = [] \<or> jsonUnmarshal w (postForm req ''metadata'') \<noteq> None) \<longrightarrow>
           uploadAndAddSpectrumHandler req w = (errorResponse StatusInternalServerError err, w1)))
   \<and> (shouldBindJSON req = Inr field \<and> cmd_failed (pdptool w (runs w))
    \<longrightarrow> fst (createProofSetHandler req w) =
          errorResponse StatusInternalServerError (cmd_output (pdptool w (runs w))))
   \<and> (formFile req = Some filename \<and> cmd_failed (pdptool w (runs w))
    \<longrightarrow> map_option fst (orchestrateHandler req w) =
          Some (errorResponse StatusInternalServerError ''create-proof-set failed''))
   \<and> (createTemp w = Inr tmpPath \<and> cmd_failed (pdptool w (runs w))
    \<longrightarrow> fst (orchestrateUploadAndAdd su sn txHash pid w) =
          errorResponse StatusInternalServerError ''upload-file failed'')
   \<and> (createTemp w = Inr tmpPath \<and> \<not> cmd_failed (pdptool w (runs w)) \<and>
       cmd_failed (pdptool w (Suc (runs w)))
    \<longrightarrow> fst (orchestrateUploadAndAdd su sn txHash pid w) =
          errorResponse StatusInternalServerError ''add-roots failed'')
   \<and> (formFile req = Some filename \<and> createTemp w = Inr tmpPath \<and> cmd_failed (pdptool w (runs w))
    \<longrightarrow> fst (uploadFileHandler req w) =
          errorResponse StatusInternalServerError ''upload-file failed'')
   \<and> (shouldBindJSON req = Inr field \<and> cmd_failed (pdptool w (runs w))
    \<longrightarrow> fst (addRootsHandler req w) =
          errorResponse StatusInternalServerError ''add-roots failed'')"
proof -
  have root: "postForm req ''proofSetID'' \<noteq> [] \<and> formFile req = Some filename \<and>
    createTemp w = Inr tmpPath \<and> copyErr w = None
    \<longrightarrow> (cmd_failed (pdptool w (runs w)) \<longrightarrow>
           fst (uploadAndAddRootHandler req w) =
             errorResponse StatusInternalServerError (cmd_output (pdptool w (runs w))))
       \<and> (\<not> cmd_failed (pdptool w (runs w)) \<and>
          fst (fst (uploadAndAddRootHandler req w)) = StatusInternalServerError \<longrightarrow>
           map_of (snd (fst (uploadAndAddRootHandler req w))) ''error'' =
             Some (JStr (cmd_output
                     (pdptool w (runs (snd (uploadAndAddRootHandler req w)) - 1)))))"
  proof (intro impI conjI)
    assume "postForm req ''proofSetID'' \<noteq> [] \<and> formFile req = Some filename \<and>
      createTemp w = Inr tmpPath \<and> copyErr w = None" "cmd_failed (pdptool w (runs w))"
    then show "fst (uploadAndAddRootHandler req w) =
             errorResponse StatusInternalServerError (cmd_output (pdptool w (runs w)))"
      by (simp add: uploadAndAddRootHandler_def CombinedOutput_eq Let_def)
  next
    assume "postForm req ''proofSetID'' \<noteq> [] \<and> formFile req = Some filename \<and>
      createTemp w = Inr tmpPath \<and> copyErr w = None"
      "\<not> cmd_failed (pdptool w (runs w)) \<and>
          fst (fst (uploadAndAddRootHandler req w)) = StatusInternalServerError"
    then show "map_of (snd (fst (uploadAndAddRootHandler req w))) ''error'' =
             Some (JStr (cmd_output
                     (pdptool w (runs (snd (uploadAndAddRootHandler req w)) - 1))))"
      by (intro root_handler_bind_error) simp_all
  qed
  have up: "createTemp w = Inr tmpPath \<and> copyErr w = None \<and> cmd_failed (pdptool w (runs w))
    \<longrightarrow> fst (uploadFileToStorage filename su sn w) =
          Inl (''upload-file failed: '' @ cmd_output (pdptool w (runs w)))"
    by (simp add: uploadFileToStorage_def CombinedOutput_eq Let_def)
  have bind: "addRootToProofSet su sn pid cid w = (Some err, w')
    \<longrightarrow> err = ''add-roots failed: '' @ cmd_output (pdptool w (runs w' - 1))"
    using loop_error_output[of 1 su sn pid cid w err w']
    by (simp add: addRootToProofSet_def maxRetries_def)
  have typed: "\<not> parseFormFails req \<and> postForm req ''proofSetID'' \<noteq> [] \<and> formFile req = Some filename \<and>
       (uploadFileToStorage filename (postForm req ''serviceUrl'') (postForm req ''serviceName'') w
          = (Inl err, w1) \<or>
        uploadFileToStorage filename (postForm req ''serviceUrl'') (postForm req ''serviceName'') w
          = (Inr rootCID, w0) \<and>
        addRootToProofSet (postForm req ''serviceUrl'') (postForm req ''serviceName'')
          (postForm req ''proofSetID'') rootCID w0 = (Some err, w1))
    \<longrightarrow> (postForm req ''title'' \<noteq> [] \<longrightarrow>
           uploadAndAddPaperHandler req w = (errorResponse StatusInternalServerError err, w1))
       \<and> (postForm req ''organism'' \<noteq> [] \<longrightarrow>
           uploadAndAddGenomeHandler req w = (errorResponse StatusInternalServerError err, w1))
       \<and> (postForm req ''compound'' \<noteq> [] \<and>
           (postForm req ''metadata'' = [] \<or> jsonUnmarshal w (postForm req ''metadata'') \<noteq> None) \<longrightarrow>
           uploadAndAddSpectrumHandler req w = (errorResponse StatusInternalServerError err, w1))"
    by (auto simp: uploadAndAddPaperHandler_def uploadAndAddGenomeHandler_def
          uploadAndAddSpectrumHandler_def Let_def)
  have create: "shouldBindJSON req = Inr field \<and> cmd_failed (pdptool w (runs w))
    \<longrightarrow> fst (createProofSetHandler req w) =
          errorResponse StatusInternalServerError (cmd_output (pdptool w (runs w)))"
    by (simp add: createProofSetHandler_def CombinedOutput_eq Let_def)
  have orch1: "formFile req = Some filename \<and> cmd_failed (pdptool w (runs w))
    \<longrightarrow> map_option fst (orchestrateHandler req w) =
          Some (errorResponse StatusInternalServerError ''create-proof-set failed'')"
    by (simp add: orchestrateHandler_def CombinedOutput_eq Let_def)
  have orch2: "createTemp w = Inr tmpPath \<and> cmd_failed (pdptool w (runs w))
    \<longrightarrow> fst (orchestrateUploadAndAdd su sn txHash pid w) =
          errorResponse StatusInternalServerError ''upload-file failed''"
    by (simp add: orchestrateUploadAndAdd_def CombinedOutput_eq Let_def)
  have orch3: "createTemp w = Inr tmpPath \<and> \<not> cmd_failed (pdptool w (runs w)) \<and>
       cmd_failed (pdptool w (Suc (runs w)))
    \<longrightarrow> fst (orchestrateUploadAndAdd su sn txHash pid w) =
          errorResponse StatusInternalServerError ''add-roots failed''"
    by (simp add: orchestrateUploadAndAdd_def CombinedOutput_eq Let_def)
  have upl: "formFile req = Some filename \<and> createTemp w = Inr tmpPath \<and> cmd_failed (pdptool w (runs w))
    \<longrightarrow> fst (uploadFileHandler req w) =
          errorResponse StatusInternalServerError ''upload-file failed''"
    by (simp add: uploadFileHandler_def CombinedOutput_eq Let_def)
  have addr: "shouldBindJSON req = Inr field \<and> cmd_failed (pdptool w (runs w))
    \<longrightarrow> fst (addRootsHandler req w) =
          errorResponse StatusInternalServerError ''add-roots failed''"
    by (simp add: addRootsHandler_def CombinedOutput_eq Let_def)
  show ?thesis
    by (intro conjI root up bind typed create orch1 orch2 orch3 upl addr)
qed

text \<open>Claim C4 as stated fails in \<^verbatim>\<open>orchestrateHandler\<close>: the create-proof-set run fails
  with the output \<^verbatim>\<open>dial tcp: connection refused\<close>, and the error sent is the fixed text
  \<^verbatim>\<open>create-proof-set failed\<close>, which does not contain that output.\<close>

theorem C4_orchestrate_fixed_text:
  "pdptool firstRunFails 0 = CmdResult ''dial tcp: connection refused'' True \<and>
   orchestrateHandler createRequest firstRunFails =
     Some ((StatusInternalServerError, [(''error'', JStr ''create-proof-set failed'')]),
           firstRunFails\<lparr>runs := 1,
             trace := [Exec (createProofSetArgs ''https://pdp.example'' ''svc'' ''0x6170dE'')]\<rparr>) \<and>
   \<not> Contains ''create-proof-set failed'' ''dial tcp: connection refused''"
  by (simp add: orchestrateHandler_def createRequest_def firstRunFails_def eval_defs)

text \<open>Each handler on a world where the run in question fails.\<close>

theorem C4_error_payload_witness:
  "fst (uploadAndAddRootHandler typedRequest firstRunFails) =
     errorResponse StatusInternalServerError ''dial tcp: connection refused'' \<and>
   fst (fst (uploadAndAddRootHandler typedRequest bindFailsThrice)) = StatusInternalServerError \<and>
   runs (snd (uploadAndAddRootHandler typedRequest bindFailsThrice)) = 4 \<and>
   map_of (snd (fst (uploadAndAddRootHandler typedRequest bindFailsThrice))) ''error'' =
     Some (JStr ''denied 3'') \<and>
   fst (uploadFileToStorage ''data.bin'' ''https://pdp.example'' ''svc'' firstRunFails) =
     Inl ''upload-file failed: dial tcp: connection refused'' \<and>
   fst (addRootToProofSet ''https://pdp.example'' ''svc'' ''7'' ''baga6ea4'' firstRunFails) =
     Some ''add-roots failed: dial tcp: connection refused'' \<and>
   fst (uploadAndAddPaperHandler typedRequest firstRunFails) =
     errorResponse StatusInternalServerError ''upload-file failed: dial tcp: connection refused'' \<and>
   fst (uploadAndAddPaperHandler typedRequest bindFailsThrice) =
     errorResponse StatusInternalServerError ''add-roots failed: denied 1'' \<and>
   fst (uploadAndAddGenomeHandler typedRequest firstRunFails) =
     errorResponse StatusInternalServerError ''upload-file failed: dial tcp: connection refused'' \<and>
   fst (uploadAndAddSpectrumHandler typedRequest firstRunFails) =
     errorResponse StatusInternalServerError ''upload-file failed: dial tcp: connection refused'' \<and>
   fst (createProofSetHandler jsonRequest firstRunFails) =
     errorResponse StatusInternalServerError ''dial tcp: connection refused'' \<and>
   map_option fst (orchestrateHandler typedRequest firstRunFails) =
     Some (errorResponse StatusInternalServerError ''create-proof-set failed'') \<and>
   fst (orchestrateUploadAndAdd ''https://pdp.example'' ''svc'' ''0xabc'' ''7'' firstRunFails) =
     errorResponse StatusInternalServerError ''upload-file failed'' \<and>
   fst (orchestrateUploadAndAdd ''https://pdp.example'' ''svc'' ''0xabc'' ''7'' bindFailsThrice) =
     errorResponse StatusInternalServerError ''add-roots failed'' \<and>
   fst (uploadFileHandler typedRequest firstRunFails) =
     errorResponse StatusInternalServerError ''upload-file failed'' \<and>
   fst (addRootsHandler jsonRequest firstRunFails) =
     errorResponse StatusInternalServerError ''add-roots failed''"
proof -
  note T = C4_error_payload
  let ?su = "''https://pdp.example''" and ?sn = "''svc''"
  have f: "postForm typedRequest ''serviceUrl'' = ?su" "postForm typedRequest ''serviceName'' = ?sn"
    "postForm typedRequest ''proofSetID'' = ''7''" "formFile typedRequest = Some ''data.bin''"
    "\<not> parseFormFails typedRequest" "postForm typedRequest ''metadata'' = []"
    "postForm typedRequest ''title'' \<noteq> []" "postForm typedRequest ''organism'' \<noteq> []"
    "postForm typedRequest ''compound'' \<noteq> []" "postForm typedRequest ''proofSetID'' \<noteq> []"
    by (simp_all add: typedRequest_def formRequest_def)
  have wf: "createTemp firstRunFails = Inr ''/tmp/pdp-upload-1''" "copyErr firstRunFails = None"
    "cmd_failed (pdptool firstRunFails (runs firstRunFails))"
    "cmd_output (pdptool firstRunFails (runs firstRunFails)) = ''dial tcp: connection refused''"
    "runs firstRunFails = 0"
    by (simp_all add: firstRunFails_def scriptedWorld_def)
  have wb: "createTemp bindFailsThrice = Inr ''/tmp/pdp-upload-1''" "copyErr bindFailsThrice = None"
    "\<not> cmd_failed (pdptool bindFailsThrice (runs bindFailsThrice))"
    "cmd_failed (pdptool bindFailsThrice (Suc (runs bindFailsThrice)))"
    "pdptool bindFailsThrice 3 = CmdResult ''denied 3'' True"
    by (simp_all add: bindFailsThrice_def scriptedWorld_def)
  have js: "shouldBindJSON jsonRequest = Inr (\<lambda>k. case map_of
          [(''serviceUrl'', ''https://pdp.example''), (''serviceName'', ''svc''),
           (''recordkeeper'', ''0x6170dE''), (''root'', ''baga6ea4'')] k of
          Some v \<Rightarrow> v | None \<Rightarrow> [])"
    by (simp add: jsonRequest_def)
  have c1: "fst (uploadAndAddRootHandler typedRequest firstRunFails) =
     errorResponse StatusInternalServerError ''dial tcp: connection refused''"
    using T[THEN conjunct1, THEN mp, OF conjI[OF f(10) conjI[OF f(4) conjI[OF wf(1) wf(2)]]],
            THEN conjunct1, THEN mp, OF wf(3)]
    by (simp only: wf(4))
  have st: "fst (fst (uploadAndAddRootHandler typedRequest bindFailsThrice)) = StatusInternalServerError"
    and rn: "runs (snd (uploadAndAddRootHandler typedRequest bindFailsThrice)) = 4"
    by (simp_all add: uploadAndAddRootHandler_def typedRequest_def bindFailsThrice_def eval_defs)
  have c2: "map_of (snd (fst (uploadAndAddRootHandler typedRequest bindFailsThrice))) ''error'' =
     Some (JStr ''denied 3'')"
    using T[THEN conjunct1, THEN mp, OF conjI[OF f(10) conjI[OF f(4) conjI[OF wb(1) wb(2)]]],
            THEN conjunct2, THEN mp, OF conjI[OF wb(3) st]]
    by (simp add: rn wb(5))
  have c3: "fst (uploadFileToStorage ''data.bin'' ?su ?sn firstRunFails) =
     Inl ''upload-file failed: dial tcp: connection refused''"
    using T[THEN conjunct2, THEN conjunct1, THEN mp, OF conjI[OF wf(1) conjI[OF wf(2) wf(3)]],
            of "''data.bin''" ?su ?sn]
    by (simp add: wf(4))
  have bindr: "addRootToProofSet ?su ?sn ''7'' ''baga6ea4'' firstRunFails =
      (Some ''add-roots failed: dial tcp: connection refused'',
       firstRunFails\<lparr>runs := 1, trace := [Exec (addRootsArgs ?su ?sn ''7'' ''baga6ea4'')]\<rparr>)"
    by (simp add: firstRunFails_def eval_defs)
  have c4: "fst (addRootToProofSet ?su ?sn ''7'' ''baga6ea4'' firstRunFails) =
     Some ''add-roots failed: dial tcp: connection refused''"
    using T[THEN conjunct2, THEN conjunct2, THEN conjunct1, THEN mp, OF bindr] bindr
    by simp
  have upr: "uploadFileToStorage ''data.bin'' (postForm typedRequest ''serviceUrl'')
               (postForm typedRequest ''serviceName'') firstRunFails =
      (Inl ''upload-file failed: dial tcp: connection refused'',
       firstRunFails\<lparr>runs := 1,
         trace := [Exec (uploadFileArgs ?su ?sn ''/tmp/pdp-upload-1'')]\<rparr>)"
    unfolding f by (simp add: firstRunFails_def eval_defs)
  note ty = T[THEN conjunct2, THEN conjunct2, THEN conjunct2, THEN conjunct1, THEN mp,
              OF conjI[OF f(5) conjI[OF f(10) conjI[OF f(4) disjI1[OF upr]]]]]
  have c5: "fst (uploadAndAddPaperHandler typedRequest firstRunFails) =
     errorResponse StatusInternalServerError ''upload-file failed: dial tcp: connection refused''"
    using ty[THEN conjunct1, THEN mp, OF f(7)] by simp
  have upr2: "uploadFileToStorage ''data.bin'' (postForm typedRequest ''serviceUrl'')
               (postForm typedRequest ''serviceName'') bindFailsThrice =
      (Inr ''baga6ea4'',
       bindFailsThrice\<lparr>runs := 1,
         trace := [Exec (uploadFileArgs ?su ?sn ''/tmp/pdp-upload-1'')]\<rparr>)"
    unfolding f by (simp add: bindFailsThrice_def eval_defs)
  have bindr2: "addRootToProofSet (postForm typedRequest ''serviceUrl'')
               (postForm typedRequest ''serviceName'') (postForm typedRequest ''proofSetID'')
               ''baga6ea4''
               (bindFailsThrice\<lparr>runs := 1,
                  trace := [Exec (uploadFileArgs ?su ?sn ''/tmp/pdp-upload-1'')]\<rparr>) =
      (Some ''add-roots failed: denied 1'',
       bindFailsThrice\<lparr>runs := 2,
         trace := [Exec (uploadFileArgs ?su ?sn ''/tmp/pdp-upload-1''),
                   Exec (addRootsArgs ?su ?sn ''7'' ''baga6ea4'')]\<rparr>)"
    unfolding f by (simp add: bindFailsThrice_def eval_defs)
  have c5b: "fst (uploadAndAddPaperHandler typedRequest bindFailsThrice) =
     errorResponse StatusInternalServerError ''add-roots failed: denied 1''"
    using T[THEN conjunct2, THEN conjunct2, THEN conjunct2, THEN conjunct1, THEN mp,
            OF conjI[OF f(5) conjI[OF f(10) conjI[OF f(4) disjI2[OF conjI[OF upr2 bindr2]]]]],
            THEN conjunct1, THEN mp, OF f(7)]
    by simp
  have c6: "fst (uploadAndAddGenomeHandler typedRequest firstRunFails) =
     errorResponse StatusInternalServerError ''upload-file failed: dial tcp: connection refused''"
    using ty[THEN conjunct2, THEN conjunct1, THEN mp, OF f(8)] by simp
  have c7: "fst (uploadAndAddSpectrumHandler typedRequest firstRunFails) =
     errorResponse StatusInternalServerError ''upload-file failed: dial tcp: connection refused''"
    using ty[THEN conjunct2, THEN conjunct2, THEN mp, OF conjI[OF f(9) disjI1[OF f(6)]]] by simp
  note rest = T[THEN conjunct2, THEN conjunct2, THEN conjunct2, THEN conjunct2]
  have c8: "fst (createProofSetHandler jsonRequest firstRunFails) =
     errorResponse StatusInternalServerError ''dial tcp: connection refused''"
    using rest[THEN conjunct1, THEN mp, OF conjI[OF js wf(3)]] by (simp only: wf(4))
  have c9: "map_option fst (orchestrateHandler typedRequest firstRunFails) =
     Some (errorResponse StatusInternalServerError ''create-proof-set failed'')"
    by (rule rest[THEN conjunct2, THEN conjunct1, THEN mp, OF conjI[OF f(4) wf(3)]])
  have c10: "fst (orchestrateUploadAndAdd ?su ?sn ''0xabc'' ''7'' firstRunFails) =
     errorResponse StatusInternalServerError ''upload-file failed''"
    by (rule rest[THEN conjunct2, THEN conjunct2, THEN conjunct1, THEN mp, OF conjI[OF wf(1) wf(3)]])
  have c11: "fst (orchestrateUploadAndAdd ?su ?sn ''0xabc'' ''7'' bindFailsThrice) =
     errorResponse StatusInternalServerError ''add-roots failed''"
    by (rule rest[THEN conjunct2, THEN conjunct2, THEN conjunct2, THEN conjunct1, THEN mp,
                  OF conjI[OF wb(1) conjI[OF wb(3) wb(4)]]])
  have c12: "fst (uploadFileHandler typedRequest firstRunFails) =
     errorResponse StatusInternalServerError ''upload-file failed''"
    by (rule rest[THEN conjunct2, THEN conjunct2, THEN conjunct2, THEN conjunct2, THEN conjunct1,
                  THEN mp, OF conjI[OF f(4) conjI[OF wf(1) wf(3)]]])
  have c13: "fst (addRootsHandler jsonRequest firstRunFails) =
     errorResponse StatusInternalServerError ''add-roots failed''"
    by (rule rest[THEN conjunct2, THEN conjunct2, THEN conjunct2, THEN conjunct2, THEN conjunct2,
                  THEN mp, OF conjI[OF js wf(3)]])
  show ?thesis by (intro conjI c1 st rn c2 c3 c4 c5 c5b c6 c7 c8 c9 c10 c11 c12 c13)
qed

subsection \<open>C5: polling until the proof set is created\<close>

text \<open>
  Claim C5 says that, with two status outputs that lack the marker and a third that
  carries \<^verbatim>\<open>ProofSet Created: true\<close> and \<^verbatim>\<open>ProofSet Id: 7\<close>, the loop runs the
  status command three times, sleeps 3 seconds after each pending result, and ends
  with the identifier \<^verbatim>\<open>7\<close>. The runs and the sleeps are as the claim says
  (\<open>pollCreated_after\<close>), and so is the identifier when the third output is ASCII
  (\<open>pollCreated_ascii_third\<close>). But the identifier is cut out of the output at an
  index of its lowered copy (lines 1398-1400), which is off where a rune before the
  marker lowers to an encoding of another length. With a third
  output that starts with U+023A and a space before the two lines, the loop runs three
  times, sleeps twice, and ends with the empty identifier: the index found in the
  lowered copy is the length of the output.
\<close>

theorem C5_poll_ends_with_empty_identifier:
  "pollCreated (statusArgs ''https://pdp.example'' ''svc'' ''0xabc'') pendingTwice =
     Some (Inr [],
           pendingTwice
             \<lparr>runs := 3,
              trace := [Exec (statusArgs ''https://pdp.example'' ''svc'' ''0xabc''), Sleep 3,
                        Exec (statusArgs ''https://pdp.example'' ''svc'' ''0xabc''), Sleep 3,
                        Exec (statusArgs ''https://pdp.example'' ''svc'' ''0xabc'')]\<rparr>)"
proof -
  let ?args = "statusArgs ''https://pdp.example'' ''svc'' ''0xabc''"
  have pending: "\<forall>i<2. \<not> Contains (ToLower (unicodeToLower pendingTwice)
                     (cmd_output (pdptool pendingTwice (runs pendingTwice + i))))
                   ''proofset created: true''"
    by (simp add: all_less_2 pendingTwice_def scriptedWorld_def ToLower_def isASCII_def
          toLower_def Contains_def sublist_code)
  have created: "parseProofSetID (unicodeToLower pendingTwice)
                   (cmd_output (pdptool pendingTwice (runs pendingTwice + 2))) = Created []"
    by (simp add: pendingTwice_def scriptedWorld_def parseProofSetID_def lower_defs Contains_def
          sublist_code TrimSpace_def isSpace_def newline_def Let_def)
  have "pollCreated ?args pendingTwice =
          Some (Inr [],
                pendingTwice
                  \<lparr>runs := runs pendingTwice + 2 + 1,
                   trace := trace pendingTwice @ concat (replicate 2 [Exec ?args, Sleep 3]) @
                              [Exec ?args]\<rparr>)"
    using pending created by (rule pollCreated_after)
  moreover have "runs pendingTwice = 0" "trace pendingTwice = []"
    by (simp_all add: pendingTwice_def scriptedWorld_def)
  ultimately show ?thesis by (simp add: numeral_2_eq_2)
qed

subsection \<open>C6: the transaction handle\<close>



subsection \<open>C7: the status output\<close>

text \<open>
  Claim C7 says that an output containing \<^verbatim>\<open>ProofSet Created: true\<close> and, on the next
  line, \<^verbatim>\<open>ProofSet Id: 42\<close> yields the identifier \<^verbatim>\<open>42\<close>. The code looks the
  identifier marker up in the lowered copy of the output and cuts the output itself at
  the index found there (lines 1398-1400), under the comment
  \<^verbatim>\<open>extract ProofSet ID robustly (case insensitive)\<close>. The two strings agree in their
  indices on ASCII outputs only (\<open>parseProofSetID_ascii\<close>). Where a rune before the
  marker lowers to a longer encoding the cut comes too late: after the two bytes of
  U+023A and a space the lines of the claim yield \<^verbatim>\<open>2\<close>; after one byte that is no
  UTF-8 they yield the empty identifier; after two such bytes the index is beyond the
  end of the output and the slice expression panics. Without the bytes in front the
  same lines yield \<^verbatim>\<open>42\<close>.
\<close>

theorem C7_index_of_lowered_copy:
  "parseProofSetID lowerCaseFragment
     (strokedA @ '' ProofSet Created: true'' @ [newline] @ ''ProofSet Id: 42'' @ [newline]) =
     Created ''2'' \<and>
   parseProofSetID lowerCaseFragment
     ([CHR 0xFF] @ ''ProofSet Created: true'' @ [newline] @ ''ProofSet Id: 42'') =
     Created [] \<and>
   parseProofSetID lowerCaseFragment
     ([CHR 0xFF, CHR 0xFF] @ ''ProofSet Created: true'' @ [newline] @ ''ProofSet Id: 42'') =
     Panicked \<and>
   parseProofSetID lowerCaseFragment
     (''ProofSet Created: true'' @ [newline] @ ''ProofSet Id: 42'' @ [newline]) =
     Created ''42''"
proof -
  have a: "parseProofSetID lowerCaseFragment
     (strokedA @ '' ProofSet Created: true'' @ [newline] @ ''ProofSet Id: 42'' @ [newline]) =
     Created ''2''"
    by (simp add: parseProofSetID_def lower_defs Contains_def sublist_code TrimSpace_def
          isSpace_def newline_def Let_def)
  have b: "parseProofSetID lowerCaseFragment
     ([CHR 0xFF] @ ''ProofSet Created: true'' @ [newline] @ ''ProofSet Id: 42'') =
     Created []"
    by (simp add: parseProofSetID_def lower_defs Contains_def sublist_code TrimSpace_def
          isSpace_def newline_def Let_def)
  have c: "parseProofSetID lowerCaseFragment
     ([CHR 0xFF, CHR 0xFF] @ ''ProofSet Created: true'' @ [newline] @ ''ProofSet Id: 42'') =
     Panicked"
    by (simp add: parseProofSetID_def lower_defs Contains_def sublist_code TrimSpace_def
          isSpace_def newline_def Let_def)
  have d: "parseProofSetID lowerCaseFragment
     (''ProofSet Created: true'' @ [newline] @ ''ProofSet Id: 42'' @ [newline]) =
     Created ''42''"
    by (simp add: parseProofSetID_def lower_defs Contains_def sublist_code TrimSpace_def
          isSpace_def newline_def Let_def)
  from a b c d show ?thesis by (intro conjI)
qed

subsection \<open>C8: the settle delay after an upload\<close>

text \<open>
  Claim C8. For a file whose name ends in \<^verbatim>\<open>.enc\<close> in any case, the upload step
  sleeps 3 seconds after the successful upload-file run and before it returns the
  content identifier; for any other name it returns with no sleep (and no path of the
  step sleeps at all). In \<^verbatim>\<open>uploadAndAddRootHandler\<close>, which has the step inline, the
  sleep comes after the upload-file run and before the first add-roots run, and for any
  other name the first add-roots run follows the upload-file run directly.
\<close>

theorem C8_settle_delay:
  "(createTemp w = Inr tmpPath \<and> copyErr w = None \<and> \<not> cmd_failed (pdptool w (runs w))
    \<longrightarrow> uploadFileToStorage filename su sn w =
          (Inr (parseRootCID_fullLine (cmd_output (pdptool w (runs w)))),
           w\<lparr>runs := Suc (runs w),
             trace := trace w @ Exec (uploadFileArgs su sn tmpPath) #
                        (if HasSuffix (ToLower (unicodeToLower w) filename) ''.enc'' then [Sleep 3] else [])\<rparr>))
   \<and> (\<not> HasSuffix (ToLower (unicodeToLower w) plain) ''.enc''
    \<longrightarrow> (\<exists>ev. trace (snd (uploadFileToStorage plain su sn w)) = trace w @ ev \<and>
              (\<forall>n. Sleep n \<notin> set ev)))
   \<and> (postForm req ''proofSetID'' \<noteq> [] \<and> formFile req = Some filename \<and>
       createTemp w = Inr tmpPath \<and> copyErr w = None \<and> \<not> cmd_failed (pdptool w (runs w))
    \<longrightarrow> (\<exists>rest. trace (snd (uploadAndAddRootHandler req w)) =
            trace w @ Exec (uploadFileArgs (postForm req ''serviceUrl'') (postForm req ''serviceName'') tmpPath) #
              (if HasSuffix (ToLower (unicodeToLower w) filename) ''.enc'' then [Sleep 3] else []) @
              Exec (addRootsArgs (postForm req ''serviceUrl'') (postForm req ''serviceName'')
                      (postForm req ''proofSetID'')
                      (parseRootCID_fullLine (cmd_output (pdptool w (runs w))))) # rest))"
proof (intro conjI impI)
  assume "createTemp w = Inr tmpPath \<and> copyErr w = None \<and> \<not> cmd_failed (pdptool w (runs w))"
  then show "uploadFileToStorage filename su sn w =
          (Inr (parseRootCID_fullLine (cmd_output (pdptool w (runs w)))),
           w\<lparr>runs := Suc (runs w),
             trace := trace w @ Exec (uploadFileArgs su sn tmpPath) #
                        (if HasSuffix (ToLower (unicodeToLower w) filename) ''.enc'' then [Sleep 3] else [])\<rparr>)"
    by (simp add: uploadFileToStorage_def CombinedOutput_def SleepSeconds_def Let_def)
next
  assume "\<not> HasSuffix (ToLower (unicodeToLower w) plain) ''.enc''"
  then show "\<exists>ev. trace (snd (uploadFileToStorage plain su sn w)) = trace w @ ev \<and>
              (\<forall>n. Sleep n \<notin> set ev)"
    by (auto simp: uploadFileToStorage_def CombinedOutput_def Let_def
          split: sum.splits option.splits)
next
  let ?su = "postForm req ''serviceUrl''" and ?sn = "postForm req ''serviceName''"
  let ?pid = "postForm req ''proofSetID''"
  let ?cid = "parseRootCID_fullLine (cmd_output (pdptool w (runs w)))"
  let ?enc = "HasSuffix (ToLower (unicodeToLower w) filename) ''.enc''"
  let ?w1 = "ran (uploadFileArgs ?su ?sn tmpPath) w"
  let ?w2 = "if ?enc then SleepSeconds 3 ?w1 else ?w1"
  assume a: "postForm req ''proofSetID'' \<noteq> [] \<and> formFile req = Some filename \<and>
       createTemp w = Inr tmpPath \<and> copyErr w = None \<and> \<not> cmd_failed (pdptool w (runs w))"
  obtain rest where rest: "trace (snd (addRootsInline 1 [] ?su ?sn ?pid ?cid ?enc ?w2)) =
      trace ?w2 @ Exec (addRootsArgs ?su ?sn ?pid ?cid) # rest"
    using inline_trace_first[of 1 "[]" ?su ?sn ?pid ?cid ?enc ?w2] by (auto simp: maxRetries_def)
  have tr: "trace (snd (uploadAndAddRootHandler req w)) =
            trace (snd (addRootsInline 1 [] ?su ?sn ?pid ?cid ?enc ?w2)) \<or>
            (\<exists>sql args. trace (snd (uploadAndAddRootHandler req w)) =
               trace (snd (addRootsInline 1 [] ?su ?sn ?pid ?cid ?enc ?w2)) @ [DbExec sql args])"
    using a
    by (auto simp: uploadAndAddRootHandler_def CombinedOutput_eq dbExec_def Let_def
          split: prod.splits loop_exit.splits)
  have w2: "trace ?w2 = trace w @ Exec (uploadFileArgs ?su ?sn tmpPath) #
              (if ?enc then [Sleep 3] else [])"
    by simp
  from tr show "\<exists>rest. trace (snd (uploadAndAddRootHandler req w)) =
            trace w @ Exec (uploadFileArgs ?su ?sn tmpPath) #
              (if ?enc then [Sleep 3] else []) @ Exec (addRootsArgs ?su ?sn ?pid ?cid) # rest"
  proof
    assume "trace (snd (uploadAndAddRootHandler req w)) =
            trace (snd (addRootsInline 1 [] ?su ?sn ?pid ?cid ?enc ?w2))"
    then show ?thesis unfolding rest w2 by simp
  next
    assume "\<exists>sql args. trace (snd (uploadAndAddRootHandler req w)) =
               trace (snd (addRootsInline 1 [] ?su ?sn ?pid ?cid ?enc ?w2)) @ [DbExec sql args]"
    then show ?thesis unfolding rest w2 by auto
  qed
qed

text \<open>A file named \<^verbatim>\<open>reads.fastq.ENC\<close>: the sleep of 3 seconds follows the upload-file
  run, in the helper and in the handler. A file named \<^verbatim>\<open>data.bin\<close>: no sleep.\<close>

theorem C8_settle_delay_witness:
  "createTemp uploadThenBind = Inr ''/tmp/pdp-upload-1'' \<and> copyErr uploadThenBind = None \<and>
   \<not> cmd_failed (pdptool uploadThenBind (runs uploadThenBind)) \<and>
   HasSuffix (ToLower (unicodeToLower uploadThenBind) ''reads.fastq.ENC'') ''.enc'' \<and>
   uploadFileToStorage ''reads.fastq.ENC'' ''https://pdp.example'' ''svc'' uploadThenBind =
     (Inr ''baga6ea4'',
      uploadThenBind\<lparr>runs := 1,
        trace := [Exec (uploadFileArgs ''https://pdp.example'' ''svc'' ''/tmp/pdp-upload-1''),
                  Sleep 3]\<rparr>) \<and>
   \<not> HasSuffix (ToLower (unicodeToLower uploadThenBind) ''data.bin'') ''.enc'' \<and>
   (\<exists>ev. trace (snd (uploadFileToStorage ''data.bin'' ''https://pdp.example'' ''svc'' uploadThenBind)) =
           trace uploadThenBind @ ev \<and> (\<forall>n. Sleep n \<notin> set ev)) \<and>
   postForm encRequest ''proofSetID'' \<noteq> [] \<and> formFile encRequest = Some ''reads.fastq.ENC'' \<and>
   (\<exists>rest. trace (snd (uploadAndAddRootHandler encRequest uploadThenBind)) =
      [Exec (uploadFileArgs ''https://pdp.example'' ''svc'' ''/tmp/pdp-upload-1''), Sleep 3,
       Exec (addRootsArgs ''https://pdp.example'' ''svc'' ''7'' ''baga6ea4'')] @ rest)"
proof -
  have h1: "createTemp uploadThenBind = Inr ''/tmp/pdp-upload-1''"
    and h2: "copyErr uploadThenBind = None"
    and h3: "\<not> cmd_failed (pdptool uploadThenBind (runs uploadThenBind))"
    by (simp_all add: uploadThenBind_def scriptedWorld_def)
  have h4: "HasSuffix (ToLower (unicodeToLower uploadThenBind) ''reads.fastq.ENC'') ''.enc''"
    and h5: "\<not> HasSuffix (ToLower (unicodeToLower uploadThenBind) ''data.bin'') ''.enc''"
    by (simp_all add: HasSuffix_def suffix_to_prefix ToLower_def isASCII_def toLower_def)
  have h6: "postForm encRequest ''proofSetID'' \<noteq> []"
    and h7: "formFile encRequest = Some ''reads.fastq.ENC''"
    by (simp_all add: encRequest_def formRequest_def)
  have cid: "parseRootCID_fullLine (cmd_output (pdptool uploadThenBind (runs uploadThenBind))) =
             ''baga6ea4''"
    by (simp add: uploadThenBind_def scriptedWorld_def parseRootCID_fullLine_def TrimSpace_def
          isSpace_def newline_def)
  note inst = C8_settle_delay[of uploadThenBind "''/tmp/pdp-upload-1''" "''reads.fastq.ENC''"
      "''https://pdp.example''" "''svc''" "''data.bin''" encRequest]
  have c1: "uploadFileToStorage ''reads.fastq.ENC'' ''https://pdp.example'' ''svc'' uploadThenBind =
     (Inr ''baga6ea4'',
      uploadThenBind\<lparr>runs := 1,
        trace := [Exec (uploadFileArgs ''https://pdp.example'' ''svc'' ''/tmp/pdp-upload-1''),
                  Sleep 3]\<rparr>)"
    using inst[THEN conjunct1, THEN mp, OF conjI[OF h1 conjI[OF h2 h3]]] h4 cid
    by (simp add: uploadThenBind_def scriptedWorld_def)
  have c2: "\<exists>ev. trace (snd (uploadFileToStorage ''data.bin'' ''https://pdp.example'' ''svc'' uploadThenBind)) =
           trace uploadThenBind @ ev \<and> (\<forall>n. Sleep n \<notin> set ev)"
    by (rule inst[THEN conjunct2, THEN conjunct1, THEN mp, OF h5])
  have c3: "\<exists>rest. trace (snd (uploadAndAddRootHandler encRequest uploadThenBind)) =
      [Exec (uploadFileArgs ''https://pdp.example'' ''svc'' ''/tmp/pdp-upload-1''), Sleep 3,
       Exec (addRootsArgs ''https://pdp.example'' ''svc'' ''7'' ''baga6ea4'')] @ rest"
    using inst[THEN conjunct2, THEN conjunct2, THEN mp,
               OF conjI[OF h6 conjI[OF h7 conjI[OF h1 conjI[OF h2 h3]]]]] h4 cid
    by (simp add: encRequest_def formRequest_def uploadThenBind_def scriptedWorld_def)
  show ?thesis by (intro conjI h1 h2 h3 h4 h5 h6 h7 c1 c2 c3)
qed

subsection \<open>C9: re-parsing a content identifier\<close>

text \<open>
  Claim C9, as amended. The extraction that takes the whole trimmed last line is
  idempotent: applied to the identifier it returned, it returns that identifier. The
  extraction that takes the last line up to its first colon does not trim its result;
  applied to the identifier it returned, it returns that identifier trimmed.
\<close>

theorem C9_reparse:
  "parseRootCID_fullLine (parseRootCID_fullLine out) = parseRootCID_fullLine out \<and>
   parseRootCID_beforeColon (parseRootCID_beforeColon out) =
     TrimSpace (parseRootCID_beforeColon out)"
proof
  let ?r = "parseRootCID_fullLine out"
  have t: "TrimSpace ?r = ?r" by (simp add: parseRootCID_fullLine_def TrimSpace_idem)
  have "Split ?r newline = [?r]" by (rule Split_no_sep) (rule newline_notin_fullLine)
  then show "parseRootCID_fullLine ?r = ?r"
    by (simp add: parseRootCID_fullLine_def[of ?r] t)
next
  show "parseRootCID_beforeColon (parseRootCID_beforeColon out) =
          TrimSpace (parseRootCID_beforeColon out)"
    using beforeColon_chars by (simp add: beforeColon_plain)
qed

text \<open>Claim C9 as stated fails for the extraction up to the first colon: from the output
  \<^verbatim>\<open>cid : 1\<close> it returns \<^verbatim>\<open>cid\<close> followed by a space, and from that it returns
  \<^verbatim>\<open>cid\<close>.\<close>

theorem C9_beforeColon_not_idempotent:
  "parseRootCID_beforeColon ''cid : 1'' = ''cid '' \<and>
   parseRootCID_beforeColon (parseRootCID_beforeColon ''cid : 1'') = ''cid'' \<and>
   parseRootCID_beforeColon (parseRootCID_beforeColon ''cid : 1'') \<noteq>
     parseRootCID_beforeColon ''cid : 1''"
  by (simp add: parseRootCID_beforeColon_def SplitN2_def TrimSpace_def isSpace_def newline_def)

subsection \<open>C10: a failed status run counts as pending\<close>

text \<open>
  Claim C10. The loop reads the output of a status run and never its error: \<open>errs\<close>,
  the error flags of the runs, is free in the statement below. As long as the outputs
  lack the marker \<^verbatim>\<open>proofset created: true\<close> (in any case), be they empty or the
  output of a failed run, the loop sleeps 3 seconds after the run and polls again; it
  ends at the first output that has the marker, after \<open>k\<close> sleeps and \<open>k + 1\<close> runs,
  also when that run failed. No error of a status run reaches the caller: when no
  output ever has the marker the loop does not return.
\<close>

theorem C10_status_error_discarded:
  "((\<forall>i\<le>k. pdptool w (runs w + i) = CmdResult (outs i) (errs i)) \<and>
    (\<forall>i<k. \<not> Contains (ToLower (unicodeToLower w) (outs i)) ''proofset created: true'') \<and>
    parseProofSetID (unicodeToLower w) (outs k) = Created pid
    \<longrightarrow> pollCreated args w =
          Some (Inr pid,
                w\<lparr>runs := runs w + k + 1,
                  trace := trace w @ concat (replicate k [Exec args, Sleep 3]) @ [Exec args]\<rparr>))
   \<and> ((\<forall>i. \<not> Contains (ToLower (unicodeToLower w) (cmd_output (pdptool w (runs w + i))))
              ''proofset created: true'')
    \<longrightarrow> pollCreated args w = None)"
proof (intro conjI impI)
  assume a: "(\<forall>i\<le>k. pdptool w (runs w + i) = CmdResult (outs i) (errs i)) \<and>
    (\<forall>i<k. \<not> Contains (ToLower (unicodeToLower w) (outs i)) ''proofset created: true'') \<and>
    parseProofSetID (unicodeToLower w) (outs k) = Created pid"
  then have out: "cmd_output (pdptool w (runs w + i)) = outs i" if "i \<le> k" for i
    using that by simp
  have pending: "\<forall>i<k. \<not> Contains (ToLower (unicodeToLower w)
                     (cmd_output (pdptool w (runs w + i)))) ''proofset created: true''"
    using a out by simp
  have created: "parseProofSetID (unicodeToLower w) (cmd_output (pdptool w (runs w + k))) =
                   Created pid"
    using a out[of k] by simp
  from pending created show "pollCreated args w =
          Some (Inr pid,
                w\<lparr>runs := runs w + k + 1,
                  trace := trace w @ concat (replicate k [Exec args, Sleep 3]) @ [Exec args]\<rparr>)"
    by (rule pollCreated_after)
next
  assume "\<forall>i. \<not> Contains (ToLower (unicodeToLower w) (cmd_output (pdptool w (runs w + i))))
              ''proofset created: true''"
  then show "pollCreated args w = None" by (rule pollCreated_never)
qed

text \<open>A status run that fails with no output, one that fails with a message and one that
  fails with the marker in its output: three runs and two sleeps of 3 seconds, and the
  identifier of the third output. A tool that always fails with no output: the loop
  does not return.\<close>

theorem C10_status_error_discarded_witness:
  "pdptool statusFailsTwice 0 = CmdResult [] True \<and>
   pdptool statusFailsTwice 1 = CmdResult ''dial tcp: connection refused'' True \<and>
   pdptool statusFailsTwice 2 =
     CmdResult (''ProofSet Created: true'' @ [newline] @ ''ProofSet Id: 7'' @ [newline]) True \<and>
   \<not> Contains (ToLower (unicodeToLower statusFailsTwice) []) ''proofset created: true'' \<and>
   \<not> Contains (ToLower (unicodeToLower statusFailsTwice) ''dial tcp: connection refused'')
       ''proofset created: true'' \<and>
   parseProofSetID (unicodeToLower statusFailsTwice)
     (''ProofSet Created: true'' @ [newline] @ ''ProofSet Id: 7'' @ [newline]) = Created ''7'' \<and>
   pollCreated (statusArgs ''https://pdp.example'' ''svc'' ''0xabc'') statusFailsTwice =
     Some (Inr ''7'',
           statusFailsTwice
             \<lparr>runs := 3,
              trace := [Exec (statusArgs ''https://pdp.example'' ''svc'' ''0xabc''), Sleep 3,
                        Exec (statusArgs ''https://pdp.example'' ''svc'' ''0xabc''), Sleep 3,
                        Exec (statusArgs ''https://pdp.example'' ''svc'' ''0xabc'')]\<rparr>) \<and>
   (\<forall>i. pdptool toolAlwaysFails (runs toolAlwaysFails + i) = CmdResult [] True) \<and>
   pollCreated (statusArgs ''https://pdp.example'' ''svc'' ''0xabc'') toolAlwaysFails = None"
proof -
  let ?args = "statusArgs ''https://pdp.example'' ''svc'' ''0xabc''"
  let ?w = statusFailsTwice
  let ?outs = "\<lambda>i. cmd_output (pdptool ?w i)" and ?errs = "\<lambda>i. cmd_failed (pdptool ?w i)"
  have r0: "pdptool ?w 0 = CmdResult [] True"
    and r1: "pdptool ?w 1 = CmdResult ''dial tcp: connection refused'' True"
    and r2: "pdptool ?w 2 =
      CmdResult (''ProofSet Created: true'' @ [newline] @ ''ProofSet Id: 7'' @ [newline]) True"
    and w0: "runs ?w = 0" "trace ?w = []"
    by (simp_all add: statusFailsTwice_def scriptedWorld_def)
  have p0: "\<not> Contains (ToLower (unicodeToLower ?w) []) ''proofset created: true''"
    and p1: "\<not> Contains (ToLower (unicodeToLower ?w) ''dial tcp: connection refused'')
                ''proofset created: true''"
    by (simp_all add: ToLower_def isASCII_def toLower_def Contains_def sublist_code)
  have c2: "parseProofSetID (unicodeToLower ?w)
     (''ProofSet Created: true'' @ [newline] @ ''ProofSet Id: 7'' @ [newline]) = Created ''7''"
    by (simp add: parseProofSetID_def ToLower_def isASCII_def toLower_def Contains_def
          sublist_code TrimSpace_def isSpace_def newline_def Let_def)
  have h1: "\<forall>i\<le>2. pdptool ?w (runs ?w + i) = CmdResult (?outs i) (?errs i)"
    by (simp add: w0)
  have h2: "\<forall>i<2. \<not> Contains (ToLower (unicodeToLower ?w) (?outs i)) ''proofset created: true''"
    using p0 p1 r0 r1 by (simp add: all_less_2)
  have h3: "parseProofSetID (unicodeToLower ?w) (?outs 2) = Created ''7''"
    using c2 by (simp add: r2)
  have "pollCreated ?args ?w =
          Some (Inr ''7'',
                ?w\<lparr>runs := runs ?w + 2 + 1,
                    trace := trace ?w @ concat (replicate 2 [Exec ?args, Sleep 3]) @ [Exec ?args]\<rparr>)"
    using C10_status_error_discarded[of 2 ?w ?outs ?errs "''7''" ?args, THEN conjunct1, THEN mp,
            OF conjI[OF h1 conjI[OF h2 h3]]] .
  then have loop: "pollCreated ?args ?w =
     Some (Inr ''7'', ?w\<lparr>runs := 3, trace := [Exec ?args, Sleep 3, Exec ?args, Sleep 3, Exec ?args]\<rparr>)"
    by (simp add: w0 numeral_2_eq_2)
  have always: "pdptool toolAlwaysFails (runs toolAlwaysFails + i) = CmdResult [] True" for i
    by (simp add: toolAlwaysFails_def scriptedWorld_def)
  have "\<forall>i. \<not> Contains (ToLower (unicodeToLower toolAlwaysFails)
                (cmd_output (pdptool toolAlwaysFails (runs toolAlwaysFails + i))))
              ''proofset created: true''"
    by (simp add: always ToLower_def isASCII_def Contains_def)
  then have never: "pollCreated ?args toolAlwaysFails = None"
    using C10_status_error_discarded[of 0 toolAlwaysFails ?outs ?errs "[]" ?args, THEN conjunct2]
    by blast
  from r0 r1 r2 p0 p1 c2 loop always never show ?thesis by (intro conjI allI)
qed

end
